theory Spec2Isabelle
  imports Main "HOL-Library.Word" "HOL-Library.Sublist"
begin

unbundle bit_operations_syntax

section \<open>FilterX variables (filterx-variable.h)\<close>

text \<open>
  \<^verbatim>\<open>FilterXVariableType\<close> is the enum of the header, \<^verbatim>\<open>FilterXVariableHandle\<close> a
  \<^verbatim>\<open>guint32\<close> and \<^verbatim>\<open>FilterXGenCounter\<close> a \<^verbatim>\<open>guint16\<close>.  The value pointer of a
  variable is an option: \<open>None\<close> is the C \<^verbatim>\<open>NULL\<close>.  The object type is left abstract;
  reference counts are not part of the model.
\<close>

datatype FilterXVariableType = FX_VAR_MESSAGE_TIED | FX_VAR_FLOATING | FX_VAR_DECLARED_FLOATING

type_synonym FilterXVariableHandle = "32 word"
type_synonym FilterXGenCounter = "16 word"

definition FILTERX_HANDLE_FLOATING_BIT :: "32 word" where
  "FILTERX_HANDLE_FLOATING_BIT = push_bit 31 1"

definition filterx_variable_handle_is_floating :: "FilterXVariableHandle \<Rightarrow> bool" where
  "filterx_variable_handle_is_floating h = ((h AND FILTERX_HANDLE_FLOATING_BIT) \<noteq> 0)"

definition filterx_variable_handle_is_message_tied :: "FilterXVariableHandle \<Rightarrow> bool" where
  "filterx_variable_handle_is_message_tied h = (\<not> filterx_variable_handle_is_floating h)"

record 'obj FilterXVariable =
  handle :: FilterXVariableHandle
  assigned :: bool
  variable_type :: FilterXVariableType
  generation :: FilterXGenCounter
  val :: "'obj option"

definition filterx_variable_get_value :: "'obj FilterXVariable \<Rightarrow> 'obj option" where
  "filterx_variable_get_value v = val v"

definition filterx_variable_set_value ::
  "'obj FilterXVariable \<Rightarrow> 'obj option \<Rightarrow> bool \<Rightarrow> FilterXGenCounter \<Rightarrow> 'obj FilterXVariable" where
  "filterx_variable_set_value v new_value assignment gen =
     v\<lparr>val := new_value, assigned := assignment, generation := gen\<rparr>"

definition filterx_variable_unset_value ::
  "'obj FilterXVariable \<Rightarrow> FilterXGenCounter \<Rightarrow> 'obj FilterXVariable" where
  "filterx_variable_unset_value v gen = filterx_variable_set_value v None True gen"

definition filterx_variable_is_set :: "'obj FilterXVariable \<Rightarrow> bool" where
  "filterx_variable_is_set v = (val v \<noteq> None)"

definition filterx_variable_is_declared :: "'obj FilterXVariable \<Rightarrow> bool" where
  "filterx_variable_is_declared v = (variable_type v = FX_VAR_DECLARED_FLOATING)"

definition filterx_variable_is_assigned :: "'obj FilterXVariable \<Rightarrow> bool" where
  "filterx_variable_is_assigned v = assigned v"

definition filterx_variable_is_same_generation :: "'obj FilterXVariable \<Rightarrow> FilterXGenCounter \<Rightarrow> bool" where
  "filterx_variable_is_same_generation v gen = (generation v = gen)"

definition filterx_variable_unassign :: "'obj FilterXVariable \<Rightarrow> 'obj FilterXVariable" where
  "filterx_variable_unassign v = v\<lparr>assigned := False\<rparr>"


section \<open>Objects, evaluation context and expressions\<close>

text \<open>
  The object layer (object-primitive.c, object-string.c, the list and dict objects) is
  consumed through its interface only.  \<open>FilterXObject\<close> keeps the type tags the
  functions below dispatch on (boolean results, strings, lists); every other object type is
  carried by \<open>FXOther\<close>.  A C pointer to an object that may be \<^verbatim>\<open>NULL\<close> is an
  option.  Reference counts and scratch buffers are memory management and are not part of
  the model.
\<close>

datatype 'a FilterXObject =
    FXBoolean bool
  | FXString string
  | FXList "'a FilterXObject list"
  | FXOther 'a

text \<open>
  The control-flow modifier of filterx-eval.h, with the values the specification lists
  (\<^verbatim>\<open>NONE\<close>, \<^verbatim>\<open>DROP\<close>, \<^verbatim>\<open>DONE\<close>).
\<close>

datatype FilterXEvalControl = FXC_UNSET | FXC_DROP | FXC_DONE

record 'a FilterXError =
  message :: string
  object :: "'a FilterXObject option"

text \<open>
  The evaluation context: the control modifier, the error stack, and \<open>user_data\<close> for
  everything else an expression may read or write (messages, variables, scratch state).
\<close>

record ('a, 'x) FilterXEvalContext =
  eval_control_modifier :: FilterXEvalControl
  error_stack :: "'a FilterXError list"
  user_data :: 'x

text \<open>
  \<^verbatim>\<open>filterx_eval_push_error(message, expr, object)\<close> of filterx-eval.c pushes a frame with the
  message and the offending object onto the error stack of the context.
\<close>

definition filterx_eval_push_error ::
  "string \<Rightarrow> 'a FilterXObject option \<Rightarrow> ('a, 'x) FilterXEvalContext \<Rightarrow> ('a, 'x) FilterXEvalContext" where
  "filterx_eval_push_error msg obj ctx =
     ctx\<lparr>error_stack := \<lparr>message = msg, object = obj\<rparr> # error_stack ctx\<rparr>"

text \<open>
  An expression node as its users see it: the \<^verbatim>\<open>eval\<close> function pointer (a state
  transformer on the context that yields an object or \<^verbatim>\<open>NULL\<close>), the two flags of
  \<^verbatim>\<open>FilterXExpr\<close>, whether the node is a literal (\<^verbatim>\<open>filterx_expr_is_literal\<close>), and, for a
  literal list generator, the value expressions of its elements
  (\<^verbatim>\<open>filterx_expr_is_literal_list_generator\<close>, \<^verbatim>\<open>filterx_literal_list_generator_foreach\<close>).
\<close>

datatype ('a, 'x) FilterXExpr =
  FilterXExpr
    (eval: "('a, 'x) FilterXEvalContext \<Rightarrow> 'a FilterXObject option \<times> ('a, 'x) FilterXEvalContext")
    (ignore_falsy_result: bool)
    (suppress_from_trace: bool)
    (is_literal: bool)
    (list_elements: "('a, 'x) FilterXExpr list option")

text \<open>
  What the modelled functions call but do not define: the global log flags, the
  capabilities of the object layer, and GLib's case folding.  A capability that reports
  failure returns \<open>None\<close>.
\<close>

record 'a filterx_env =
  debug_flag :: bool
  trace_flag :: bool
  filterx_object_truthy :: "'a FilterXObject \<Rightarrow> bool"
  filterx_object_repr :: "'a FilterXObject \<Rightarrow> string option"
  filterx_object_marshal :: "'a FilterXObject \<Rightarrow> string option"
  filterx_object_unmarshal :: "'a FilterXObject \<Rightarrow> 'a FilterXObject option"
  g_utf8_casefold :: "string \<Rightarrow> string"

definition filterx_expr_eval ::
  "('a, 'x) FilterXExpr \<Rightarrow> ('a, 'x) FilterXEvalContext
     \<Rightarrow> 'a FilterXObject option \<times> ('a, 'x) FilterXEvalContext" where
  "filterx_expr_eval expr ctx = eval expr ctx"

definition filterx_boolean_new :: "bool \<Rightarrow> 'a FilterXObject" where
  "filterx_boolean_new b = FXBoolean b"

section \<open>Compound expressions (expr-compound.c)\<close>

record ('a, 'x) FilterXCompoundExpr =
  return_value_of_last_expr :: bool
  exprs :: "('a, 'x) FilterXExpr list"

text \<open>
  \<^verbatim>\<open>_eval_expr\<close>: the result triple is the C return value, \<^verbatim>\<open>*result\<close> and the context
  after the call.  The diagnostic block renders the result with \<^verbatim>\<open>repr\<close>, falling back
  to \<^verbatim>\<open>marshal\<close>; when both fail the code runs into \<^verbatim>\<open>g_assert_not_reached()\<close>, and the
  model returns \<open>None\<close> for the aborted process.  The log line itself is not modelled.
\<close>

definition eval_expr ::
  "'a filterx_env \<Rightarrow> ('a, 'x) FilterXExpr \<Rightarrow> ('a, 'x) FilterXEvalContext
     \<Rightarrow> (bool \<times> 'a FilterXObject option \<times> ('a, 'x) FilterXEvalContext) option" where
  "eval_expr E expr ctx =
     (case filterx_expr_eval expr ctx of
        (None, ctx') \<Rightarrow> Some (False, None, ctx')
      | (Some res, ctx') \<Rightarrow>
          (let success = (ignore_falsy_result expr \<or> filterx_object_truthy E res) in
           if ((\<not> success \<and> debug_flag E) \<or> trace_flag E) \<and> \<not> suppress_from_trace expr
           then (case filterx_object_repr E res of
                   Some buf \<Rightarrow> Some (success, Some res, ctx')
                 | None \<Rightarrow>
                     (case filterx_object_marshal E res of
                        Some buf \<Rightarrow> Some (success, Some res, ctx')
                      | None \<Rightarrow> None))
           else Some (success, Some res, ctx')))"

text \<open>
  \<^verbatim>\<open>_eval_exprs\<close>: the \<^verbatim>\<open>for\<close> loop over the children, with \<^verbatim>\<open>*result\<close> as the
  accumulator.  At the top of an iteration the previous result is unreferenced but the
  pointer stays in \<^verbatim>\<open>*result\<close>, so a short circuit returns with the previous result
  still stored.
\<close>

fun eval_exprs_loop ::
  "'a filterx_env \<Rightarrow> ('a, 'x) FilterXExpr list \<Rightarrow> 'a FilterXObject option
     \<Rightarrow> ('a, 'x) FilterXEvalContext
     \<Rightarrow> (bool \<times> 'a FilterXObject option \<times> ('a, 'x) FilterXEvalContext) option" where
  "eval_exprs_loop E [] result ctx = Some (True, result, ctx)"
| "eval_exprs_loop E (expr # rest) result ctx =
     (if eval_control_modifier ctx = FXC_DROP \<or> eval_control_modifier ctx = FXC_DONE
      then Some (True, result, ctx)
      else (case eval_expr E expr ctx of
              None \<Rightarrow> None
            | Some (ok, res, ctx') \<Rightarrow>
                if \<not> ok then Some (False, res, ctx')
                else eval_exprs_loop E rest res ctx'))"

definition eval_exprs ::
  "'a filterx_env \<Rightarrow> ('a, 'x) FilterXCompoundExpr \<Rightarrow> ('a, 'x) FilterXEvalContext
     \<Rightarrow> (bool \<times> 'a FilterXObject option \<times> ('a, 'x) FilterXEvalContext) option" where
  "eval_exprs E self ctx = eval_exprs_loop E (exprs self) None ctx"

text \<open>\<^verbatim>\<open>_eval_compound\<close>: the returned object (\<open>None\<close> for \<^verbatim>\<open>NULL\<close>) and the context.\<close>

definition eval_compound ::
  "'a filterx_env \<Rightarrow> ('a, 'x) FilterXCompoundExpr \<Rightarrow> ('a, 'x) FilterXEvalContext
     \<Rightarrow> ('a FilterXObject option \<times> ('a, 'x) FilterXEvalContext) option" where
  "eval_compound E self ctx =
     (case eval_exprs E self ctx of
        None \<Rightarrow> None
      | Some (ran_through, result, ctx') \<Rightarrow>
          if \<not> ran_through
          then (case result of
                  Some r \<Rightarrow>
                    Some (None, filterx_eval_push_error ''bailing out due to a falsy expr'' (Some r) ctx')
                | None \<Rightarrow> Some (None, ctx'))
          else if result = None \<or> \<not> return_value_of_last_expr self
          then Some (Some (filterx_boolean_new True), ctx')
          else Some (result, ctx'))"

subsection \<open>Vocabulary for the properties of compound evaluation\<close>

definition short_circuits :: "FilterXEvalControl \<Rightarrow> bool" where
  "short_circuits m = (m = FXC_DROP \<or> m = FXC_DONE)"

text \<open>The object can be rendered for the log: \<^verbatim>\<open>repr\<close> or \<^verbatim>\<open>marshal\<close> succeeds.\<close>

definition traceable :: "'a filterx_env \<Rightarrow> 'a FilterXObject \<Rightarrow> bool" where
  "traceable E res = (filterx_object_repr E res \<noteq> None \<or> filterx_object_marshal E res \<noteq> None)"

text \<open>
  The children evaluated one after the other, each in the context its predecessor left,
  with no control flow in between: child, result and context after the child.
\<close>

fun child_results ::
  "('a, 'x) FilterXExpr list \<Rightarrow> ('a, 'x) FilterXEvalContext
     \<Rightarrow> (('a, 'x) FilterXExpr \<times> 'a FilterXObject option \<times> ('a, 'x) FilterXEvalContext) list" where
  "child_results [] ctx = []"
| "child_results (expr # rest) ctx =
     (case filterx_expr_eval expr ctx of
        (res, ctx') \<Rightarrow> (expr, res, ctx') # child_results rest ctx')"

definition last_result ::
  "('a, 'x) FilterXExpr list \<Rightarrow> ('a, 'x) FilterXEvalContext \<Rightarrow> 'a FilterXObject option" where
  "last_result cs ctx = fst (snd (last (child_results cs ctx)))"

definition final_context ::
  "('a, 'x) FilterXExpr list \<Rightarrow> ('a, 'x) FilterXEvalContext \<Rightarrow> ('a, 'x) FilterXEvalContext" where
  "final_context cs ctx = (if cs = [] then ctx else snd (snd (last (child_results cs ctx))))"

text \<open>
  Every child yields a truthy object and leaves the control modifier alone (and, where the
  trace log is on, the object can be rendered).
\<close>

definition all_truthy ::
  "'a filterx_env \<Rightarrow> ('a, 'x) FilterXExpr list \<Rightarrow> ('a, 'x) FilterXEvalContext \<Rightarrow> bool" where
  "all_truthy E cs ctx =
     (\<forall>(expr, res, ctx') \<in> set (child_results cs ctx).
        \<exists>obj. res = Some obj \<and> filterx_object_truthy E obj
          \<and> (trace_flag E \<and> \<not> suppress_from_trace expr \<longrightarrow> traceable E obj)
          \<and> \<not> short_circuits (eval_control_modifier ctx'))"

section \<open>Initialisation of nodes with children\<close>

text \<open>
  \<^verbatim>\<open>filterx_expr_init\<close> and \<^verbatim>\<open>filterx_expr_deinit\<close> dispatch to the child's own methods,
  and the statistics registry and \<^verbatim>\<open>filterx_generator_init_method\<close> live in other files:
  they are the fields of \<open>expr_lifecycle\<close>.  \<open>'e\<close> is a child expression, \<open>'g\<close>
  everything initialisation can change (the configuration, the registry, the children's
  own state).  A counter is registered under its key and the value of its \<^verbatim>\<open>name\<close>
  label, if it has one.
\<close>

record ('e, 'g) expr_lifecycle =
  filterx_expr_init :: "'e \<Rightarrow> 'g \<Rightarrow> bool \<times> 'g"
  filterx_expr_deinit :: "'e \<Rightarrow> 'g \<Rightarrow> 'g"
  stats_register_counter :: "string \<Rightarrow> string option \<Rightarrow> 'g \<Rightarrow> 'g"
  stats_unregister_counter :: "string \<Rightarrow> string option \<Rightarrow> 'g \<Rightarrow> 'g"
  filterx_generator_init_method :: "'g \<Rightarrow> bool \<times> 'g"
  filterx_generator_deinit_method :: "'g \<Rightarrow> 'g"

text \<open>
  The key of a literal generator element may be \<^verbatim>\<open>NULL\<close> (list elements have none);
  initialising or deinitialising a \<^verbatim>\<open>NULL\<close> expression does nothing and succeeds.
\<close>

definition filterx_expr_init_opt :: "('e, 'g) expr_lifecycle \<Rightarrow> 'e option \<Rightarrow> 'g \<Rightarrow> bool \<times> 'g" where
  "filterx_expr_init_opt L expr cfg =
     (case expr of None \<Rightarrow> (True, cfg) | Some e \<Rightarrow> filterx_expr_init L e cfg)"

definition filterx_expr_deinit_opt :: "('e, 'g) expr_lifecycle \<Rightarrow> 'e option \<Rightarrow> 'g \<Rightarrow> 'g" where
  "filterx_expr_deinit_opt L expr cfg =
     (case expr of None \<Rightarrow> cfg | Some e \<Rightarrow> filterx_expr_deinit L e cfg)"

subsection \<open>expr-compound.c\<close>

text \<open>
  \<^verbatim>\<open>_init\<close>: the loop over \<^verbatim>\<open>self->exprs\<close>; \<open>initialized\<close> holds the children before
  index \<^verbatim>\<open>i\<close>.  When a child fails, the inner loop deinitialises them from index 0
  upwards.
\<close>

fun compound_init_loop ::
  "('e, 'g) expr_lifecycle \<Rightarrow> 'e list \<Rightarrow> 'e list \<Rightarrow> 'g \<Rightarrow> bool \<times> 'g" where
  "compound_init_loop L initialized [] cfg = (True, cfg)"
| "compound_init_loop L initialized (expr # rest) cfg =
     (case filterx_expr_init L expr cfg of
        (ok, cfg') \<Rightarrow>
          if \<not> ok then (False, foldl (\<lambda>g e. filterx_expr_deinit L e g) cfg' initialized)
          else compound_init_loop L (initialized @ [expr]) rest cfg')"

definition compound_init :: "('e, 'g) expr_lifecycle \<Rightarrow> 'e list \<Rightarrow> 'g \<Rightarrow> bool \<times> 'g" where
  "compound_init L children cfg =
     (case compound_init_loop L [] children cfg of
        (ok, cfg') \<Rightarrow>
          if \<not> ok then (False, cfg')
          else (True, stats_register_counter L ''fx_compound_evals_total'' None cfg'))"

definition compound_deinit :: "('e, 'g) expr_lifecycle \<Rightarrow> 'e list \<Rightarrow> 'g \<Rightarrow> 'g" where
  "compound_deinit L children cfg =
     foldl (\<lambda>g e. filterx_expr_deinit L e g)
       (stats_unregister_counter L ''fx_compound_evals_total'' None cfg) children"

subsection \<open>filterx-expr.c\<close>

record 'e FilterXBinaryOp =
  op_name :: string
  lhs :: 'e
  rhs :: 'e

definition filterx_binary_op_init_method ::
  "('e, 'g) expr_lifecycle \<Rightarrow> 'e FilterXBinaryOp \<Rightarrow> 'g \<Rightarrow> bool \<times> 'g" where
  "filterx_binary_op_init_method L self cfg =
     (case filterx_expr_init L (lhs self) cfg of
        (ok_lhs, cfg1) \<Rightarrow>
          if \<not> ok_lhs then (False, cfg1)
          else (case filterx_expr_init L (rhs self) cfg1 of
                  (ok_rhs, cfg2) \<Rightarrow>
                    if \<not> ok_rhs then (False, cfg2)
                    else (True, stats_register_counter L ''fx_op_evals_total''
                                  (Some (op_name self)) cfg2)))"

definition filterx_binary_op_deinit_method ::
  "('e, 'g) expr_lifecycle \<Rightarrow> 'e FilterXBinaryOp \<Rightarrow> 'g \<Rightarrow> 'g" where
  "filterx_binary_op_deinit_method L self cfg =
     filterx_expr_deinit L (rhs self)
       (filterx_expr_deinit L (lhs self)
          (stats_unregister_counter L ''fx_op_evals_total'' (Some (op_name self)) cfg))"

subsection \<open>expr-literal-generator.c\<close>

record 'e FilterXLiteralGeneratorElem =
  elem_key :: "'e option"
  elem_value :: 'e
  cloneable :: bool

definition literal_generator_elem_init ::
  "('e, 'g) expr_lifecycle \<Rightarrow> 'e FilterXLiteralGeneratorElem \<Rightarrow> 'g \<Rightarrow> bool \<times> 'g" where
  "literal_generator_elem_init L self cfg =
     (case filterx_expr_init_opt L (elem_key self) cfg of
        (ok_key, cfg1) \<Rightarrow>
          if \<not> ok_key then (False, cfg1)
          else (case filterx_expr_init L (elem_value self) cfg1 of
                  (ok_value, cfg2) \<Rightarrow>
                    if \<not> ok_value then (False, filterx_expr_deinit_opt L (elem_key self) cfg2)
                    else (True, cfg2)))"

definition literal_generator_elem_deinit ::
  "('e, 'g) expr_lifecycle \<Rightarrow> 'e FilterXLiteralGeneratorElem \<Rightarrow> 'g \<Rightarrow> 'g" where
  "literal_generator_elem_deinit L self cfg =
     filterx_expr_deinit L (elem_value self) (filterx_expr_deinit_opt L (elem_key self) cfg)"

text \<open>
  \<^verbatim>\<open>_literal_generator_init\<close>: \<open>initialized\<close> holds the elements before \<^verbatim>\<open>link\<close>; the
  inner loop walks them from the head of the list up to \<^verbatim>\<open>link\<close>.
\<close>

fun literal_generator_init_loop ::
  "('e, 'g) expr_lifecycle \<Rightarrow> 'e FilterXLiteralGeneratorElem list
     \<Rightarrow> 'e FilterXLiteralGeneratorElem list \<Rightarrow> 'g \<Rightarrow> bool \<times> 'g" where
  "literal_generator_init_loop L initialized [] cfg = (True, cfg)"
| "literal_generator_init_loop L initialized (elem # rest) cfg =
     (case literal_generator_elem_init L elem cfg of
        (ok, cfg') \<Rightarrow>
          if \<not> ok
          then (False, foldl (\<lambda>g e. literal_generator_elem_deinit L e g) cfg' initialized)
          else literal_generator_init_loop L (initialized @ [elem]) rest cfg')"

definition literal_generator_init ::
  "('e, 'g) expr_lifecycle \<Rightarrow> 'e FilterXLiteralGeneratorElem list \<Rightarrow> 'g \<Rightarrow> bool \<times> 'g" where
  "literal_generator_init L elements cfg =
     (case literal_generator_init_loop L [] elements cfg of
        (ok, cfg') \<Rightarrow> if \<not> ok then (False, cfg') else filterx_generator_init_method L cfg')"

definition literal_generator_deinit ::
  "('e, 'g) expr_lifecycle \<Rightarrow> 'e FilterXLiteralGeneratorElem list \<Rightarrow> 'g \<Rightarrow> 'g" where
  "literal_generator_deinit L elements cfg =
     filterx_generator_deinit_method L
       (foldl (\<lambda>g e. literal_generator_elem_deinit L e g) cfg elements)"

section \<open>The TLS transport (transport-tls.c)\<close>

text \<open>
  libssl is outside the repository.  One call into it is described by \<open>ssl_call\<close>: the
  value the call returns, the code \<^verbatim>\<open>SSL_get_error\<close> reports for it, and \<^verbatim>\<open>errno\<close> after
  the call.  The error codes are those of openssl/ssl.h; the \<^verbatim>\<open>errno\<close> values and the
  \<^verbatim>\<open>GIOCondition\<close> bits are the Linux and GLib ones.
\<close>

datatype SSL_ERROR =
    SSL_ERROR_NONE
  | SSL_ERROR_SSL
  | SSL_ERROR_WANT_READ
  | SSL_ERROR_WANT_WRITE
  | SSL_ERROR_WANT_X509_LOOKUP
  | SSL_ERROR_SYSCALL
  | SSL_ERROR_ZERO_RETURN
  | SSL_ERROR_WANT_CONNECT
  | SSL_ERROR_WANT_ACCEPT

record ssl_call =
  ssl_rc :: int
  ssl_error :: SSL_ERROR
  ssl_errno :: int

datatype ssl_op = SSL_read_called | SSL_write_called | SSL_shutdown_called

definition EINTR :: int where "EINTR = 4"
definition EAGAIN :: int where "EAGAIN = 11"
definition EPIPE :: int where "EPIPE = 32"
definition ECONNRESET :: int where "ECONNRESET = 104"

definition G_IO_IN :: int where "G_IO_IN = 1"
definition G_IO_OUT :: int where "G_IO_OUT = 4"

text \<open>
  The transport (\<^verbatim>\<open>cond\<close> of the \<^verbatim>\<open>LogTransport\<close>, \<^verbatim>\<open>sending_shutdown\<close>) together with
  the process's \<^verbatim>\<open>errno\<close>, what the coming calls of \<^verbatim>\<open>SSL_shutdown\<close> will do, and the
  calls into libssl made so far.
\<close>

record LogTransportTLS =
  cond :: int
  sending_shutdown :: bool
  errno :: int
  shutdown_script :: "ssl_call list"
  ssl_calls :: "ssl_op list"

definition is_shutdown_sent :: "int \<Rightarrow> bool" where
  "is_shutdown_sent shutdown_rc = (shutdown_rc \<ge> 0)"

definition handle_shutdown_error :: "LogTransportTLS \<Rightarrow> SSL_ERROR \<Rightarrow> LogTransportTLS" where
  "handle_shutdown_error self e =
     (case e of
        SSL_ERROR_WANT_READ \<Rightarrow> self\<lparr>cond := G_IO_IN, errno := EAGAIN\<rparr>
      | SSL_ERROR_WANT_WRITE \<Rightarrow> self\<lparr>cond := G_IO_OUT, errno := EAGAIN\<rparr>
      | SSL_ERROR_SYSCALL \<Rightarrow> self\<lparr>sending_shutdown := False\<rparr>
      | _ \<Rightarrow> self\<lparr>errno := ECONNRESET, sending_shutdown := False\<rparr>)"

text \<open>
  \<^verbatim>\<open>log_transport_tls_send_shutdown\<close>; \<open>None\<close> when nothing is known about the next
  \<^verbatim>\<open>SSL_shutdown\<close>.
\<close>

definition log_transport_tls_send_shutdown :: "LogTransportTLS \<Rightarrow> (int \<times> LogTransportTLS) option" where
  "log_transport_tls_send_shutdown self =
     (case shutdown_script self of
        [] \<Rightarrow> None
      | c # rest \<Rightarrow>
          (let self1 = self\<lparr>sending_shutdown := True, errno := ssl_errno c,
                             shutdown_script := rest,
                             ssl_calls := ssl_calls self @ [SSL_shutdown_called]\<rparr>;
               shutdown_rc = ssl_rc c
           in if is_shutdown_sent shutdown_rc
              then Some (shutdown_rc, self1\<lparr>sending_shutdown := False\<rparr>)
              else Some (shutdown_rc, handle_shutdown_error self1 (ssl_error c))))"

text \<open>
  One pass through the body of the \<^verbatim>\<open>do\<close> loop of the read method: either the jump to
  \<^verbatim>\<open>tls_error\<close>, or \<^verbatim>\<open>rc\<close> and the state at the loop condition.
\<close>

datatype read_step = Tls_error LogTransportTLS | Loop_condition int LogTransportTLS

definition tls_read_once :: "ssl_call \<Rightarrow> LogTransportTLS \<Rightarrow> read_step option" where
  "tls_read_once c self =
     (let self1 = self\<lparr>errno := ssl_errno c, ssl_calls := ssl_calls self @ [SSL_read_called]\<rparr>;
          rc = ssl_rc c
      in if rc \<le> 0
         then (case ssl_error c of
                 SSL_ERROR_WANT_READ \<Rightarrow> Some (Loop_condition (- 1) (self1\<lparr>errno := EAGAIN\<rparr>))
               | SSL_ERROR_WANT_WRITE \<Rightarrow>
                   Some (Loop_condition (- 1) (self1\<lparr>cond := G_IO_OUT, errno := EAGAIN\<rparr>))
               | SSL_ERROR_ZERO_RETURN \<Rightarrow>
                   (case log_transport_tls_send_shutdown self1 of
                      None \<Rightarrow> None
                    | Some (shutdown_rc, self2) \<Rightarrow>
                        Some (Loop_condition (if shutdown_rc \<ge> 0 then 0 else - 1) self2))
               | SSL_ERROR_SYSCALL \<Rightarrow>
                   Some (Loop_condition (if errno self1 = 0 then 0 else - 1) self1)
               | _ \<Rightarrow> Some (Tls_error self1))
         else Some (Loop_condition rc self1))"

text \<open>
  The \<^verbatim>\<open>do\<close> loop, over what the coming calls of \<^verbatim>\<open>SSL_read\<close> will do; \<open>None\<close> when
  the loop asks for a call nothing is known about.
\<close>

fun tls_read_loop :: "ssl_call list \<Rightarrow> LogTransportTLS \<Rightarrow> (int \<times> LogTransportTLS) option" where
  "tls_read_loop [] self = None"
| "tls_read_loop (c # rest) self =
     (case tls_read_once c self of
        None \<Rightarrow> None
      | Some (Tls_error s) \<Rightarrow> Some (- 1, s\<lparr>errno := ECONNRESET\<rparr>)
      | Some (Loop_condition rc s) \<Rightarrow>
          if rc = - 1 \<and> errno s = EINTR then tls_read_loop rest s
          else Some (rc, if rc > 0 then s\<lparr>cond := 0\<rparr> else s))"

text \<open>
  \<^verbatim>\<open>log_transport_tls_read_method\<close>.  The block that copies the peer's certificate fields
  into \<^verbatim>\<open>aux\<close> writes to \<^verbatim>\<open>aux\<close> only and is left out.
\<close>

definition log_transport_tls_read_method ::
  "ssl_call list \<Rightarrow> LogTransportTLS \<Rightarrow> (int \<times> LogTransportTLS) option" where
  "log_transport_tls_read_method reads self =
     (if sending_shutdown self
      then (case log_transport_tls_send_shutdown self of
              None \<Rightarrow> None
            | Some (shutdown_rc, self') \<Rightarrow> Some (if shutdown_rc \<ge> 0 then 0 else - 1, self'))
      else tls_read_loop reads (self\<lparr>cond := G_IO_IN\<rparr>))"

text \<open>\<^verbatim>\<open>log_transport_tls_write_method\<close>, given what its call of \<^verbatim>\<open>SSL_write\<close> does.\<close>

definition log_transport_tls_write_method ::
  "ssl_call \<Rightarrow> LogTransportTLS \<Rightarrow> int \<times> LogTransportTLS" where
  "log_transport_tls_write_method c self =
     (let self1 = self\<lparr>cond := G_IO_OUT, errno := ssl_errno c,
                        ssl_calls := ssl_calls self @ [SSL_write_called]\<rparr>;
          rc = ssl_rc c
      in if rc < 0
         then (case ssl_error c of
                 SSL_ERROR_WANT_READ \<Rightarrow> (rc, self1\<lparr>cond := G_IO_IN, errno := EAGAIN\<rparr>)
               | SSL_ERROR_WANT_WRITE \<Rightarrow> (rc, self1\<lparr>errno := EAGAIN\<rparr>)
               | SSL_ERROR_SYSCALL \<Rightarrow>
                   if errno self1 = 0 then (- 1, self1\<lparr>errno := ECONNRESET\<rparr>) else (rc, self1)
               | _ \<Rightarrow> (- 1, self1\<lparr>errno := EPIPE\<rparr>))
         else (rc, self1\<lparr>cond := 0\<rparr>))"

section \<open>regexp_search (expr-regexp-search.c)\<close>

text \<open>
  The flags of expr-regexp-search.h, in the order \<^verbatim>\<open>DEFINE_FUNC_FLAG_NAMES\<close> names them;
  a \<^verbatim>\<open>FLAGSET\<close> is the set of the flags that are on.
\<close>

datatype FilterXRegexpSearchFlags =
    FILTERX_REGEXP_SEARCH_KEEP_GRP_ZERO
  | FILTERX_REGEXP_SEARCH_LIST_MODE

type_synonym FLAGSET = "FilterXRegexpSearchFlags set"

definition check_flag :: "FLAGSET \<Rightarrow> FilterXRegexpSearchFlags \<Rightarrow> bool" where
  "check_flag flagset flag = (flag \<in> flagset)"

text \<open>
  \<^verbatim>\<open>PCRE2_SIZE\<close> is \<^verbatim>\<open>size_t\<close>, 64 bits wide here.  The ovector of the match data is the
  list of its (begin, end) pairs, so \<^verbatim>\<open>pcre2_get_ovector_count\<close> is its length and
  \<^verbatim>\<open>matches[2 * i]\<close>, \<^verbatim>\<open>matches[2 * i + 1]\<close> are the components of the pair at \<open>i\<close>.
  \<open>match_data\<close> is \<open>None\<close> for a \<^verbatim>\<open>NULL\<close> pointer.
\<close>

type_synonym PCRE2_SIZE = "64 word"

record FilterXReMatchState =
  match_data :: "(PCRE2_SIZE \<times> PCRE2_SIZE) list option"
  lhs_str :: string
  flags :: FLAGSET

text \<open>The conversion of a \<^verbatim>\<open>PCRE2_SIZE\<close> to \<^verbatim>\<open>gint\<close> (32 bits, signed) and to \<^verbatim>\<open>gssize\<close>.\<close>

definition gint_of_size :: "PCRE2_SIZE \<Rightarrow> int" where
  "gint_of_size w = sint (ucast w :: 32 word)"

definition gssize_of_size :: "PCRE2_SIZE \<Rightarrow> int" where
  "gssize_of_size w = sint w"

text \<open>
  The object layer as the two store functions use it.  \<open>filterx_string_new\<close> gets the
  bytes from the pointer on and the length argument; \<open>filterx_list_append\<close> and
  \<open>filterx_object_set_subscript\<close> return the changed container, or \<open>None\<close> for
  \<^verbatim>\<open>FALSE\<close>; the value handed to \<open>filterx_object_set_subscript\<close> is a pointer that may
  be \<^verbatim>\<open>NULL\<close>; \<open>filterx_object_unset_key\<close> likewise returns \<open>None\<close> for \<^verbatim>\<open>FALSE\<close>.
  Keys are always string objects here and are given by their text.
  \<open>ovector_out_of_bounds\<close> is what memory holds where \<^verbatim>\<open>matches[2 * n]\<close> and
  \<^verbatim>\<open>matches[2 * n + 1]\<close> lie outside the ovector.
\<close>

record ('v, 'l, 'd) regexp_store_ops =
  filterx_string_new :: "string \<Rightarrow> int \<Rightarrow> 'v"
  filterx_list_append :: "'l \<Rightarrow> 'v \<Rightarrow> 'l option"
  filterx_object_get_subscript :: "'d \<Rightarrow> string \<Rightarrow> 'v option"
  filterx_object_set_subscript :: "'d \<Rightarrow> string \<Rightarrow> 'v option \<Rightarrow> 'd option"
  filterx_object_unset_key :: "'d \<Rightarrow> string \<Rightarrow> 'd option"
  ovector_out_of_bounds :: "int \<Rightarrow> PCRE2_SIZE \<times> PCRE2_SIZE"

text \<open>\<^verbatim>\<open>g_snprintf\<close> with \<^verbatim>\<open>%u\<close>: the decimal digits of a number.\<close>

definition digit_char :: "nat \<Rightarrow> char" where
  "digit_char d = ''0123456789'' ! d"

fun decimal :: "nat \<Rightarrow> string" where
  "decimal n = (if n < 10 then [digit_char n] else decimal (n div 10) @ [digit_char (n mod 10)])"

declare decimal.simps [simp del]

text \<open>
  The loop of \<^verbatim>\<open>_store_matches_to_list\<close>: \<open>num_matches\<close> is the ovector count, \<open>i\<close>
  the loop index, the list the pairs from index \<open>i\<close> on.
\<close>

fun store_matches_to_list_loop ::
  "('v, 'l, 'd) regexp_store_ops \<Rightarrow> FilterXReMatchState \<Rightarrow> nat \<Rightarrow> nat
     \<Rightarrow> (PCRE2_SIZE \<times> PCRE2_SIZE) list \<Rightarrow> 'l \<Rightarrow> bool \<times> 'l" where
  "store_matches_to_list_loop ops state num_matches i [] fillable = (True, fillable)"
| "store_matches_to_list_loop ops state num_matches i (m # rest) fillable =
     (if num_matches > 1 \<and> i = 0 \<and> \<not> check_flag (flags state) FILTERX_REGEXP_SEARCH_KEEP_GRP_ZERO
      then store_matches_to_list_loop ops state num_matches (Suc i) rest fillable
      else
        (let begin_index = gint_of_size (fst m); end_index = gint_of_size (snd m) in
         if begin_index < 0 \<or> end_index < 0
         then store_matches_to_list_loop ops state num_matches (Suc i) rest fillable
         else
           (case filterx_list_append ops fillable
                   (filterx_string_new ops (drop (nat begin_index) (lhs_str state))
                      (end_index - begin_index)) of
              None \<Rightarrow> (False, fillable)
            | Some fillable' \<Rightarrow>
                store_matches_to_list_loop ops state num_matches (Suc i) rest fillable')))"

text \<open>\<^verbatim>\<open>_store_matches_to_list\<close>; \<open>None\<close> is the crash on a \<^verbatim>\<open>NULL\<close> match data.\<close>

definition store_matches_to_list ::
  "('v, 'l, 'd) regexp_store_ops \<Rightarrow> FilterXReMatchState \<Rightarrow> 'l \<Rightarrow> (bool \<times> 'l) option" where
  "store_matches_to_list ops state fillable =
     (case match_data state of
        None \<Rightarrow> None
      | Some matches \<Rightarrow>
          Some (store_matches_to_list_loop ops state (length matches) 0 matches fillable))"

text \<open>
  The first loop of \<^verbatim>\<open>_store_matches_to_dict\<close>.  Its indices are \<^verbatim>\<open>PCRE2_SIZE\<close>, so
  the test for negative indices compares unsigned values; the length argument is the
  unsigned difference converted to \<^verbatim>\<open>gssize\<close>.
\<close>

fun store_matches_to_dict_loop ::
  "('v, 'l, 'd) regexp_store_ops \<Rightarrow> FilterXReMatchState \<Rightarrow> nat \<Rightarrow> nat
     \<Rightarrow> (PCRE2_SIZE \<times> PCRE2_SIZE) list \<Rightarrow> 'd \<Rightarrow> bool \<times> 'd" where
  "store_matches_to_dict_loop ops state num_matches i [] fillable = (True, fillable)"
| "store_matches_to_dict_loop ops state num_matches i (m # rest) fillable =
     (if num_matches > 1 \<and> i = 0 \<and> \<not> check_flag (flags state) FILTERX_REGEXP_SEARCH_KEEP_GRP_ZERO
      then store_matches_to_dict_loop ops state num_matches (Suc i) rest fillable
      else
        (let begin_index = fst m; end_index = snd m in
         if begin_index < 0 \<or> end_index < 0
         then store_matches_to_dict_loop ops state num_matches (Suc i) rest fillable
         else
           (case filterx_object_set_subscript ops fillable (decimal i)
                   (Some (filterx_string_new ops (drop (unat begin_index) (lhs_str state))
                            (gssize_of_size (end_index - begin_index)))) of
              None \<Rightarrow> (False, fillable)
            | Some fillable' \<Rightarrow>
                store_matches_to_dict_loop ops state num_matches (Suc i) rest fillable')))"

text \<open>
  The second loop renames the named groups.  An entry of the name table of the pattern is
  its two leading bytes and the name.  The bytes are read as \<^verbatim>\<open>gchar\<close>, a signed
  \<^verbatim>\<open>char\<close>, so \<^verbatim>\<open>int n = (name_table[0] << 8) | name_table[1]\<close> promotes each
  with its sign: a byte of 128 or more makes \<open>n\<close> negative.
\<close>

type_synonym name_table_entry = "8 word \<times> 8 word \<times> string"

definition named_group_number :: "8 word \<Rightarrow> 8 word \<Rightarrow> 32 word" where
  "named_group_number msb lsb = push_bit 8 (scast msb) OR scast lsb"

text \<open>
  \<^verbatim>\<open>matches[2 * n]\<close> and \<^verbatim>\<open>matches[2 * n + 1]\<close> for the \<^verbatim>\<open>int\<close> \<open>n\<close>: the pair of
  the ovector, or what lies in memory outside it.
\<close>

definition ovector_pair ::
  "('v, 'l, 'd) regexp_store_ops \<Rightarrow> (PCRE2_SIZE \<times> PCRE2_SIZE) list \<Rightarrow> int
     \<Rightarrow> PCRE2_SIZE \<times> PCRE2_SIZE" where
  "ovector_pair ops matches n =
     (if 0 \<le> n \<and> nat n < length matches then matches ! nat n
      else ovector_out_of_bounds ops n)"

text \<open>
  The numeric key is \<open>n\<close> printed with \<^verbatim>\<open>%u\<close>, that is as an unsigned number.
  \<open>None\<close> is the failed \<^verbatim>\<open>g_assert\<close> on \<^verbatim>\<open>filterx_object_unset_key\<close>.
\<close>

fun rename_named_matches ::
  "('v, 'l, 'd) regexp_store_ops \<Rightarrow> (PCRE2_SIZE \<times> PCRE2_SIZE) list \<Rightarrow> name_table_entry list
     \<Rightarrow> 'd \<Rightarrow> (bool \<times> 'd) option" where
  "rename_named_matches ops matches [] fillable = Some (True, fillable)"
| "rename_named_matches ops matches ((msb, lsb, namedgroup_name) # rest) fillable =
     (let n = named_group_number msb lsb;
          begin_index = fst (ovector_pair ops matches (sint n));
          end_index = snd (ovector_pair ops matches (sint n))
      in if begin_index < 0 \<or> end_index < 0
         then rename_named_matches ops matches rest fillable
         else
           (let num_key = decimal (unat n);
                v = filterx_object_get_subscript ops fillable num_key;
                set_result = filterx_object_set_subscript ops fillable namedgroup_name v;
                fillable1 = (case set_result of None \<Rightarrow> fillable | Some f \<Rightarrow> f)
            in case filterx_object_unset_key ops fillable1 num_key of
                 None \<Rightarrow> None
               | Some fillable2 \<Rightarrow>
                   if set_result = None then Some (False, fillable2)
                   else rename_named_matches ops matches rest fillable2))"

definition store_matches_to_dict ::
  "('v, 'l, 'd) regexp_store_ops \<Rightarrow> name_table_entry list \<Rightarrow> FilterXReMatchState \<Rightarrow> 'd
     \<Rightarrow> (bool \<times> 'd) option" where
  "store_matches_to_dict ops name_table state fillable =
     (case match_data state of
        None \<Rightarrow> None
      | Some matches \<Rightarrow>
          (case store_matches_to_dict_loop ops state (length matches) 0 matches fillable of
             (ok, fillable') \<Rightarrow>
               if \<not> ok then Some (False, fillable')
               else rename_named_matches ops matches name_table fillable'))"

text \<open>\<^verbatim>\<open>_store_matches\<close> dispatches on the type of the container.\<close>

datatype ('l, 'd) fillable = Fillable_list 'l | Fillable_dict 'd | Fillable_other

definition store_matches ::
  "('v, 'l, 'd) regexp_store_ops \<Rightarrow> name_table_entry list \<Rightarrow> FilterXReMatchState
     \<Rightarrow> ('l, 'd) fillable \<Rightarrow> (bool \<times> ('l, 'd) fillable) option" where
  "store_matches ops name_table state fillable =
     (case fillable of
        Fillable_list l \<Rightarrow>
          map_option (\<lambda>(ok, l'). (ok, Fillable_list l')) (store_matches_to_list ops state l)
      | Fillable_dict d \<Rightarrow>
          map_option (\<lambda>(ok, d'). (ok, Fillable_dict d'))
            (store_matches_to_dict ops name_table state d)
      | Fillable_other \<Rightarrow> Some (False, Fillable_other))"

subsection \<open>Vocabulary for the properties of the store functions\<close>

text \<open>Group 0 is skipped: there is more than one group and the keep-zero flag is off.\<close>

definition group_zero_elided :: "FilterXReMatchState \<Rightarrow> (PCRE2_SIZE \<times> PCRE2_SIZE) list \<Rightarrow> bool" where
  "group_zero_elided state matches =
     (length matches > 1 \<and> \<not> check_flag (flags state) FILTERX_REGEXP_SEARCH_KEEP_GRP_ZERO)"

text \<open>The values list mode makes of the given groups: those with non-negative indices.\<close>

definition list_values ::
  "('v, 'l, 'd) regexp_store_ops \<Rightarrow> FilterXReMatchState \<Rightarrow> (PCRE2_SIZE \<times> PCRE2_SIZE) list \<Rightarrow> 'v list" where
  "list_values ops state ms =
     map (\<lambda>m. filterx_string_new ops (drop (nat (gint_of_size (fst m))) (lhs_str state))
                (gint_of_size (snd m) - gint_of_size (fst m)))
       (filter (\<lambda>m. \<not> (gint_of_size (fst m) < 0 \<or> gint_of_size (snd m) < 0)) ms)"

text \<open>
  Containers that behave as a list and a dict do: appending adds at the end, a key is set
  to a value that is there, unsetting a key removes it and succeeds.  A string object is
  its bytes.  Memory outside the ovector holds zeros.
\<close>

definition plain_store_ops :: "(string, string list, string \<rightharpoonup> string) regexp_store_ops" where
  "plain_store_ops = \<lparr>
     filterx_string_new = (\<lambda>bytes len. take (nat len) bytes),
     filterx_list_append = (\<lambda>l v. Some (l @ [v])),
     filterx_object_get_subscript = (\<lambda>d k. d k),
     filterx_object_set_subscript =
       (\<lambda>d k v. case v of None \<Rightarrow> None | Some x \<Rightarrow> Some (d(k \<mapsto> x))),
     filterx_object_unset_key = (\<lambda>d k. Some (d(k := None))),
     ovector_out_of_bounds = (\<lambda>n. (0, 0)) \<rparr>"

section \<open>startswith, endswith, includes (func-str.c)\<close>

text \<open>
  Strings are byte strings: a \<^verbatim>\<open>GString\<close> is the list of its \<^verbatim>\<open>len\<close> bytes (in memory
  a NUL byte follows them).  A function that can crash the process (by dereferencing
  \<^verbatim>\<open>NULL\<close>) returns \<open>None\<close> for the crash; inside, \<open>None\<close> stands for a \<^verbatim>\<open>NULL\<close>
  result as before.
\<close>

definition G_MAXSSIZE :: int where
  "G_MAXSSIZE = 2 ^ 63 - 1"

text \<open>
  \<^verbatim>\<open>filterx_expr_eval_typed\<close> of filterx-expr.h evaluates the expression and unmarshals
  the result.
\<close>

definition filterx_expr_eval_typed ::
  "'a filterx_env \<Rightarrow> ('a, 'x) FilterXExpr \<Rightarrow> ('a, 'x) FilterXEvalContext
     \<Rightarrow> 'a FilterXObject option \<times> ('a, 'x) FilterXEvalContext" where
  "filterx_expr_eval_typed E expr ctx =
     (case filterx_expr_eval expr ctx of
        (None, ctx') \<Rightarrow> (None, ctx')
      | (Some obj, ctx') \<Rightarrow> (filterx_object_unmarshal E obj, ctx'))"

definition format_str_obj :: "'a filterx_env \<Rightarrow> 'a FilterXObject \<Rightarrow> string option" where
  "format_str_obj E obj = filterx_object_repr E obj"

text \<open>\<^verbatim>\<open>_do_casefold\<close>: the folded string, or \<open>None\<close> for \<^verbatim>\<open>FALSE\<close>.\<close>

definition do_casefold :: "'a filterx_env \<Rightarrow> string \<Rightarrow> string option" where
  "do_casefold E str =
     (if int (length str) > G_MAXSSIZE then None else Some (g_utf8_casefold E str))"

text \<open>
  What \<^verbatim>\<open>_expr_format\<close> and \<^verbatim>\<open>_obj_format\<close> do with the object once they have it.  When
  \<^verbatim>\<open>repr\<close> fails and \<^verbatim>\<open>ignore_case\<close> is on, \<^verbatim>\<open>_do_casefold\<close> is called with \<^verbatim>\<open>NULL\<close>
  and reads \<^verbatim>\<open>str->len\<close>: the crash.
\<close>

definition format_and_fold ::
  "'a filterx_env \<Rightarrow> 'a FilterXObject \<Rightarrow> bool \<Rightarrow> ('a, 'x) FilterXEvalContext
     \<Rightarrow> (string option \<times> ('a, 'x) FilterXEvalContext) option" where
  "format_and_fold E obj ignore_case ctx =
     (let result = format_str_obj E obj;
          ctx' = (if result = None
                  then filterx_eval_push_error
                         ''failed to extract string value, repr() failed'' (Some obj) ctx
                  else ctx)
      in if ignore_case
         then (case result of
                 None \<Rightarrow> None
               | Some str \<Rightarrow> Some (do_casefold E str, ctx'))
         else Some (result, ctx'))"

definition expr_format ::
  "'a filterx_env \<Rightarrow> ('a, 'x) FilterXExpr \<Rightarrow> bool \<Rightarrow> ('a, 'x) FilterXEvalContext
     \<Rightarrow> (string option \<times> ('a, 'x) FilterXEvalContext) option" where
  "expr_format E expr ignore_case ctx =
     (case filterx_expr_eval_typed E expr ctx of
        (None, ctx') \<Rightarrow> Some (None, ctx')
      | (Some obj, ctx') \<Rightarrow> format_and_fold E obj ignore_case ctx')"

definition obj_format ::
  "'a filterx_env \<Rightarrow> 'a FilterXObject \<Rightarrow> bool \<Rightarrow> ('a, 'x) FilterXEvalContext
     \<Rightarrow> (string option \<times> ('a, 'x) FilterXEvalContext) option" where
  "obj_format E obj ignore_case ctx = format_and_fold E obj ignore_case ctx"

subsection \<open>The needle cache\<close>

record ('a, 'x) FilterXStringWithCache =
  cache_expr :: "('a, 'x) FilterXExpr"
  str_value :: "string option"
  str_len :: nat

text \<open>
  \<^verbatim>\<open>_string_with_cache_fill_cache\<close>: for a literal the expression is formatted and the
  function reports whether that worked; \<^verbatim>\<open>self\<close> is returned as it came, since neither
  \<^verbatim>\<open>str_value\<close> nor \<^verbatim>\<open>str_len\<close> is assigned.
\<close>

definition string_with_cache_fill_cache ::
  "'a filterx_env \<Rightarrow> ('a, 'x) FilterXStringWithCache \<Rightarrow> bool \<Rightarrow> ('a, 'x) FilterXEvalContext
     \<Rightarrow> (bool \<times> ('a, 'x) FilterXStringWithCache \<times> ('a, 'x) FilterXEvalContext) option" where
  "string_with_cache_fill_cache E self ignore_case ctx =
     (if \<not> is_literal (cache_expr self) then Some (True, self, ctx)
      else (case expr_format E (cache_expr self) ignore_case ctx of
              None \<Rightarrow> None
            | Some (res, ctx') \<Rightarrow> Some (res \<noteq> None, self, ctx')))"

definition string_with_cache_new ::
  "'a filterx_env \<Rightarrow> ('a, 'x) FilterXExpr \<Rightarrow> bool \<Rightarrow> ('a, 'x) FilterXEvalContext
     \<Rightarrow> (('a, 'x) FilterXStringWithCache option \<times> ('a, 'x) FilterXEvalContext) option" where
  "string_with_cache_new E expr ignore_case ctx =
     (case string_with_cache_fill_cache E
             \<lparr>cache_expr = expr, str_value = None, str_len = 0\<rparr> ignore_case ctx of
        None \<Rightarrow> None
      | Some (ok, self, ctx') \<Rightarrow> Some (if ok then Some self else None, ctx'))"

text \<open>
  \<^verbatim>\<open>_string_with_cache_get_string_value\<close>: \<^verbatim>\<open>*dst\<close> and \<^verbatim>\<open>*len\<close>, or \<open>None\<close> for
  \<^verbatim>\<open>FALSE\<close>.
\<close>

definition string_with_cache_get_string_value ::
  "'a filterx_env \<Rightarrow> ('a, 'x) FilterXStringWithCache \<Rightarrow> bool \<Rightarrow> ('a, 'x) FilterXEvalContext
     \<Rightarrow> ((string \<times> nat) option \<times> ('a, 'x) FilterXEvalContext) option" where
  "string_with_cache_get_string_value E self ignore_case ctx =
     (case str_value self of
        Some dst \<Rightarrow> Some (Some (dst, str_len self), ctx)
      | None \<Rightarrow>
          (case expr_format E (cache_expr self) ignore_case ctx of
             None \<Rightarrow> None
           | Some (None, ctx') \<Rightarrow> Some (None, ctx')
           | Some (Some res, ctx') \<Rightarrow> Some (Some (res, length res), ctx')))"

text \<open>
  \<^verbatim>\<open>_cache_needle\<close>, the callback handed to \<^verbatim>\<open>filterx_literal_list_generator_foreach\<close>,
  and the foreach itself over the value expressions of the elements.
\<close>

definition cache_needle ::
  "'a filterx_env \<Rightarrow> bool \<Rightarrow> ('a, 'x) FilterXExpr
     \<Rightarrow> ('a, 'x) FilterXStringWithCache list \<times> ('a, 'x) FilterXEvalContext
     \<Rightarrow> (bool \<times> ('a, 'x) FilterXStringWithCache list \<times> ('a, 'x) FilterXEvalContext) option" where
  "cache_needle E ignore_case v user = 
     (case user of
        (cached, ctx) \<Rightarrow>
          (case string_with_cache_new E v ignore_case ctx of
             None \<Rightarrow> None
           | Some (None, ctx') \<Rightarrow> Some (False, cached, ctx')
           | Some (Some obj_with_cache, ctx') \<Rightarrow> Some (True, cached @ [obj_with_cache], ctx')))"

fun filterx_literal_list_generator_foreach ::
  "'e list \<Rightarrow> ('e \<Rightarrow> 'u \<Rightarrow> (bool \<times> 'u) option) \<Rightarrow> 'u \<Rightarrow> (bool \<times> 'u) option" where
  "filterx_literal_list_generator_foreach [] func user = Some (True, user)"
| "filterx_literal_list_generator_foreach (v # rest) func user =
     (case func v user of
        None \<Rightarrow> None
      | Some (ok, user') \<Rightarrow>
          if \<not> ok then Some (False, user')
          else filterx_literal_list_generator_foreach rest func user')"

subsection \<open>The affix node\<close>

record ('a, 'x) FilterXExprAffix =
  ignore_case :: bool
  haystack :: "('a, 'x) FilterXExpr"
  needle_expr :: "('a, 'x) FilterXExpr"
  cached_strings :: "('a, 'x) FilterXStringWithCache list"
  process :: "string \<Rightarrow> nat \<Rightarrow> string \<Rightarrow> nat \<Rightarrow> bool"

definition filterx_expr_is_literal_list_generator :: "('a, 'x) FilterXExpr \<Rightarrow> bool" where
  "filterx_expr_is_literal_list_generator expr = (list_elements expr \<noteq> None)"

text \<open>\<^verbatim>\<open>_expr_affix_init_needle\<close>: the return value, the node and the context.\<close>

definition expr_affix_init_needle ::
  "'a filterx_env \<Rightarrow> ('a, 'x) FilterXExprAffix \<Rightarrow> ('a, 'x) FilterXExpr
     \<Rightarrow> ('a, 'x) FilterXEvalContext
     \<Rightarrow> (bool \<times> ('a, 'x) FilterXExprAffix \<times> ('a, 'x) FilterXEvalContext) option" where
  "expr_affix_init_needle E self needle ctx =
     (let self1 = self\<lparr>needle_expr := needle\<rparr>;
          literal_step =
            (if is_literal (needle_expr self1)
             then (case string_with_cache_new E (needle_expr self1) (ignore_case self1) ctx of
                     None \<Rightarrow> None
                   | Some (None, ctx') \<Rightarrow> Some (False, self1, ctx')
                   | Some (Some obj_with_cache, ctx') \<Rightarrow>
                       Some (True,
                             self1\<lparr>cached_strings := cached_strings self1 @ [obj_with_cache]\<rparr>,
                             ctx'))
             else Some (True, self1, ctx))
      in case literal_step of
           None \<Rightarrow> None
         | Some (ok, self2, ctx2) \<Rightarrow>
             if \<not> ok then Some (False, self2, ctx2)
             else if filterx_expr_is_literal_list_generator (needle_expr self2)
             then (case filterx_literal_list_generator_foreach
                          (the (list_elements (needle_expr self2)))
                          (cache_needle E (ignore_case self2))
                          (cached_strings self2, ctx2) of
                     None \<Rightarrow> None
                   | Some (ok', cached, ctx3) \<Rightarrow>
                       Some (ok', self2\<lparr>cached_strings := cached\<rparr>, ctx3))
             else Some (True, self2, ctx2))"

text \<open>
  The part of \<^verbatim>\<open>_function_affix_new\<close> after the arguments have been extracted: the fresh
  node with an empty array of cached strings, then the needle.
\<close>

definition function_affix_new ::
  "'a filterx_env \<Rightarrow> bool \<Rightarrow> ('a, 'x) FilterXExpr \<Rightarrow> ('a, 'x) FilterXExpr
     \<Rightarrow> (string \<Rightarrow> nat \<Rightarrow> string \<Rightarrow> nat \<Rightarrow> bool) \<Rightarrow> ('a, 'x) FilterXEvalContext
     \<Rightarrow> (('a, 'x) FilterXExprAffix option \<times> ('a, 'x) FilterXEvalContext) option" where
  "function_affix_new E ignore_case_arg haystack_expr needle process_func ctx =
     (case expr_affix_init_needle E
             \<lparr>ignore_case = ignore_case_arg, haystack = haystack_expr, needle_expr = needle,
              cached_strings = [], process = process_func\<rparr> needle ctx of
        None \<Rightarrow> None
      | Some (ok, self, ctx') \<Rightarrow> Some (if ok then Some self else None, ctx'))"

text \<open>
  The loop of \<^verbatim>\<open>_expr_affix_eval_needle\<close> over the elements of a list: the strings
  collected so far are \<open>needles\<close>.
\<close>

fun format_needle_elements ::
  "'a filterx_env \<Rightarrow> bool \<Rightarrow> 'a FilterXObject list \<Rightarrow> string list
     \<Rightarrow> ('a, 'x) FilterXEvalContext
     \<Rightarrow> (string list option \<times> ('a, 'x) FilterXEvalContext) option" where
  "format_needle_elements E ic [] needles ctx = Some (Some needles, ctx)"
| "format_needle_elements E ic (elem # rest) needles ctx =
     (case obj_format E elem ic ctx of
        None \<Rightarrow> None
      | Some (None, ctx') \<Rightarrow> Some (None, ctx')
      | Some (Some str_val, ctx') \<Rightarrow>
          format_needle_elements E ic rest (needles @ [str_val]) ctx')"

definition expr_affix_eval_needle ::
  "'a filterx_env \<Rightarrow> ('a, 'x) FilterXExprAffix \<Rightarrow> ('a, 'x) FilterXEvalContext
     \<Rightarrow> (string list option \<times> ('a, 'x) FilterXEvalContext) option" where
  "expr_affix_eval_needle E self ctx =
     (case filterx_expr_eval (needle_expr self) ctx of
        (None, ctx') \<Rightarrow> Some (None, ctx')
      | (Some needle_obj, ctx') \<Rightarrow>
          (case needle_obj of
             FXString s \<Rightarrow>
               (case obj_format E needle_obj (ignore_case self) ctx' of
                  None \<Rightarrow> None
                | Some (None, ctx'') \<Rightarrow> Some (None, ctx'')
                | Some (Some str_val, ctx'') \<Rightarrow> Some (Some [str_val], ctx''))
           | FXList elems \<Rightarrow>
               if length elems = 0 then Some (None, ctx')
               else format_needle_elements E (ignore_case self) elems [] ctx'
           | _ \<Rightarrow> Some (None, ctx')))"

text \<open>
  The two loops of \<^verbatim>\<open>_expr_affix_eval\<close>: over the cached strings (\<open>None\<close> inside for the
  jump to \<^verbatim>\<open>exit\<close> with a \<^verbatim>\<open>NULL\<close> result), and over the evaluated needles.
\<close>

fun match_cached_strings ::
  "'a filterx_env \<Rightarrow> ('a, 'x) FilterXExprAffix \<Rightarrow> string
     \<Rightarrow> ('a, 'x) FilterXStringWithCache list \<Rightarrow> ('a, 'x) FilterXEvalContext
     \<Rightarrow> (bool option \<times> ('a, 'x) FilterXEvalContext) option" where
  "match_cached_strings E self haystack_str [] ctx = Some (Some False, ctx)"
| "match_cached_strings E self haystack_str (current_needle # rest) ctx =
     (case string_with_cache_get_string_value E current_needle (ignore_case self) ctx of
        None \<Rightarrow> None
      | Some (None, ctx') \<Rightarrow> Some (None, ctx')
      | Some (Some (needle_str, needle_len), ctx') \<Rightarrow>
          if process self haystack_str (length haystack_str) needle_str needle_len
          then Some (Some True, ctx')
          else match_cached_strings E self haystack_str rest ctx')"

fun match_needle_list ::
  "(string \<Rightarrow> nat \<Rightarrow> string \<Rightarrow> nat \<Rightarrow> bool) \<Rightarrow> string \<Rightarrow> string list \<Rightarrow> bool" where
  "match_needle_list process_func haystack_str [] = False"
| "match_needle_list process_func haystack_str (current_needle # rest) =
     (if process_func haystack_str (length haystack_str) current_needle (length current_needle)
      then True
      else match_needle_list process_func haystack_str rest)"

definition expr_affix_eval ::
  "'a filterx_env \<Rightarrow> ('a, 'x) FilterXExprAffix \<Rightarrow> ('a, 'x) FilterXEvalContext
     \<Rightarrow> ('a FilterXObject option \<times> ('a, 'x) FilterXEvalContext) option" where
  "expr_affix_eval E self ctx =
     (case expr_format E (haystack self) (ignore_case self) ctx of
        None \<Rightarrow> None
      | Some (None, ctx1) \<Rightarrow> Some (None, ctx1)
      | Some (Some haystack_str, ctx1) \<Rightarrow>
          if length (cached_strings self) \<noteq> 0
          then (case match_cached_strings E self haystack_str (cached_strings self) ctx1 of
                  None \<Rightarrow> None
                | Some (None, ctx2) \<Rightarrow> Some (None, ctx2)
                | Some (Some matches, ctx2) \<Rightarrow> Some (Some (filterx_boolean_new matches), ctx2))
          else (case expr_affix_eval_needle E self ctx1 of
                  None \<Rightarrow> None
                | Some (None, ctx2) \<Rightarrow> Some (None, ctx2)
                | Some (Some needle_list, ctx2) \<Rightarrow>
                    Some (Some (filterx_boolean_new
                                  (match_needle_list (process self) haystack_str needle_list)),
                          ctx2)))"

subsection \<open>The three predicates\<close>

text \<open>
  \<^verbatim>\<open>memcmp(a, b, n) == 0\<close> on buffers that hold at least \<open>n\<close> bytes each.
\<close>

definition memcmp_equal :: "string \<Rightarrow> string \<Rightarrow> nat \<Rightarrow> bool" where
  "memcmp_equal a b n = (take n a = take n b)"

definition function_startswith_process :: "string \<Rightarrow> nat \<Rightarrow> string \<Rightarrow> nat \<Rightarrow> bool" where
  "function_startswith_process hs haystack_len needle needle_len =
     (if needle_len > haystack_len then False
      else memcmp_equal hs needle needle_len)"

definition function_endswith_process :: "string \<Rightarrow> nat \<Rightarrow> string \<Rightarrow> nat \<Rightarrow> bool" where
  "function_endswith_process hs haystack_len needle needle_len =
     (if needle_len > haystack_len then False
      else memcmp_equal (drop (haystack_len - needle_len) hs) needle needle_len)"

text \<open>
  GLib's \<^verbatim>\<open>g_strstr_len(haystack, haystack_len, needle)\<close>, as a test for a result other
  than \<^verbatim>\<open>NULL\<close>.  The needle is a C string: it ends at its first NUL byte.  With a
  negative length the search is \<^verbatim>\<open>strstr\<close> on the C string of the haystack.  Otherwise
  an empty needle is found at once, and the scan tries the positions up to
  \<^verbatim>\<open>haystack_len - needle_len\<close> and stops early at a NUL byte of the haystack.
\<close>

definition NUL :: char where
  "NUL = CHR 0x00"

definition c_string :: "string \<Rightarrow> string" where
  "c_string bytes = takeWhile (\<lambda>c. c \<noteq> NUL) bytes"

fun strstr_found :: "string \<Rightarrow> string \<Rightarrow> bool" where
  "strstr_found [] needle = (needle = [])"
| "strstr_found (c # cs) needle =
     (if take (length needle) (c # cs) = needle then True else strstr_found cs needle)"

fun g_strstr_scan :: "string \<Rightarrow> nat \<Rightarrow> string \<Rightarrow> bool" where
  "g_strstr_scan [] positions needle = False"
| "g_strstr_scan (c # cs) positions needle =
     (if positions = 0 \<or> c = NUL then False
      else if take (length needle) (c # cs) = needle then True
      else g_strstr_scan cs (positions - 1) needle)"

definition g_strstr_len :: "string \<Rightarrow> int \<Rightarrow> string \<Rightarrow> bool" where
  "g_strstr_len hs haystack_len needle =
     (if haystack_len < 0 then strstr_found (c_string hs) (c_string needle)
      else
        (let needle_len = length (c_string needle) in
         if needle_len = 0 then True
         else if nat haystack_len < needle_len then False
         else g_strstr_scan hs (nat haystack_len - needle_len + 1) (c_string needle)))"

text \<open>The conversion of a \<^verbatim>\<open>gsize\<close> to the \<^verbatim>\<open>gssize\<close> parameter, 64 bits wide.\<close>

definition gssize_of_gsize :: "nat \<Rightarrow> int" where
  "gssize_of_gsize n = sint (word_of_nat n :: 64 word)"

definition function_includes_process :: "string \<Rightarrow> nat \<Rightarrow> string \<Rightarrow> nat \<Rightarrow> bool" where
  "function_includes_process hs haystack_len needle needle_len =
     (if needle_len > haystack_len then False
      else g_strstr_len hs (gssize_of_gsize haystack_len) needle)"

subsection \<open>Vocabulary for the properties of the affix functions\<close>

text \<open>
  A needle object as the predicate sees it: rendered by \<^verbatim>\<open>repr\<close> and, under
  \<^verbatim>\<open>ignorecase\<close>, case-folded; \<open>None\<close> when one of the two fails.
\<close>

definition rendered :: "'a filterx_env \<Rightarrow> bool \<Rightarrow> 'a FilterXObject \<Rightarrow> string option" where
  "rendered E ic obj =
     (case filterx_object_repr E obj of
        None \<Rightarrow> None
      | Some s \<Rightarrow> if ic then do_casefold E s else Some s)"

text \<open>The needles of a needle object: the string itself, or the elements of the list.\<close>

definition needle_objects :: "'a FilterXObject \<Rightarrow> 'a FilterXObject list" where
  "needle_objects obj = (case obj of FXString s \<Rightarrow> [obj] | FXList elems \<Rightarrow> elems | _ \<Rightarrow> [])"


definition context_after :: "('r \<times> 'c) list \<Rightarrow> 'c \<Rightarrow> 'c" where
  "context_after results ctx = (if results = [] then ctx else snd (last results))"

section \<open>Concrete environments and expressions for evaluation\<close>

text \<open>
  A small environment on which the definitions can be run: both log flags on, booleans
  truthy by value, strings by non-emptiness, \<^verbatim>\<open>repr\<close> defined on booleans and strings,
  and a case folding that lowers ASCII letters.  The context's \<open>user_data\<close> is the list
  of the expressions evaluated so far, by number.
\<close>

definition ascii_casefold :: "string \<Rightarrow> string" where
  "ascii_casefold s =
     map (\<lambda>c. if (65::nat) \<le> of_char c \<and> of_char c \<le> (90::nat)
              then char_of (of_char c + (32::nat)) else c) s"

definition demo_env :: "unit filterx_env" where
  "demo_env = \<lparr>
     debug_flag = True,
     trace_flag = True,
     filterx_object_truthy =
       (\<lambda>obj. case obj of FXBoolean b \<Rightarrow> b | FXString s \<Rightarrow> s \<noteq> [] | FXList xs \<Rightarrow> True | FXOther u \<Rightarrow> False),
     filterx_object_repr =
       (\<lambda>obj. case obj of
                 FXBoolean b \<Rightarrow> Some (if b then ''true'' else ''false'')
               | FXString s \<Rightarrow> Some s
               | FXList xs \<Rightarrow> None
               | FXOther u \<Rightarrow> None),
     filterx_object_marshal = (\<lambda>obj. None),
     filterx_object_unmarshal = Some,
     g_utf8_casefold = ascii_casefold \<rparr>"

definition demo_ctx :: "(unit, nat list) FilterXEvalContext" where
  "demo_ctx = \<lparr> eval_control_modifier = FXC_UNSET, error_stack = [], user_data = [] \<rparr>"

text \<open>An expression that yields \<open>r\<close> and records its number \<open>n\<close>.\<close>

definition value_expr :: "nat \<Rightarrow> unit FilterXObject option \<Rightarrow> (unit, nat list) FilterXExpr" where
  "value_expr n r =
     FilterXExpr (\<lambda>c. (r, c\<lparr>user_data := user_data c @ [n]\<rparr>)) False False False None"

text \<open>An expression that also sets the control modifier, as \<^verbatim>\<open>drop\<close> and \<^verbatim>\<open>done\<close> do.\<close>

definition control_expr ::
  "nat \<Rightarrow> FilterXEvalControl \<Rightarrow> unit FilterXObject option \<Rightarrow> (unit, nat list) FilterXExpr" where
  "control_expr n m r =
     FilterXExpr (\<lambda>c. (r, c\<lparr>eval_control_modifier := m, user_data := user_data c @ [n]\<rparr>))
       False False False None"

text \<open>
  A lifecycle that writes every call into a log: children are numbers, and the child
  \<open>failing\<close> is the one whose \<^verbatim>\<open>init\<close> fails.
\<close>

datatype lifecycle_event =
    InitCalled nat
  | DeinitCalled nat
  | CounterRegistered string
  | CounterUnregistered string
  | GeneratorInit
  | GeneratorDeinit

definition logging_lifecycle :: "nat \<Rightarrow> (nat, lifecycle_event list) expr_lifecycle" where
  "logging_lifecycle failing = \<lparr>
     filterx_expr_init = (\<lambda>e g. (e \<noteq> failing, g @ [InitCalled e])),
     filterx_expr_deinit = (\<lambda>e g. g @ [DeinitCalled e]),
     stats_register_counter = (\<lambda>k l g. g @ [CounterRegistered k]),
     stats_unregister_counter = (\<lambda>k l g. g @ [CounterUnregistered k]),
     filterx_generator_init_method = (\<lambda>g. (True, g @ [GeneratorInit])),
     filterx_generator_deinit_method = (\<lambda>g. g @ [GeneratorDeinit]) \<rparr>"

text \<open>A fresh transport, as \<^verbatim>\<open>log_transport_tls_new\<close> leaves it, with one scripted shutdown.\<close>

definition demo_tls :: LogTransportTLS where
  "demo_tls = \<lparr> cond = 0, sending_shutdown = False, errno = 0,
                shutdown_script = [\<lparr>ssl_rc = 0, ssl_error = SSL_ERROR_NONE, ssl_errno = 0\<rparr>],
                ssl_calls = [] \<rparr>"

text \<open>
  The subject \<^verbatim>\<open>foo123bar\<close> matched by a pattern without capture groups
  (\<^verbatim>\<open>\d+\<close>: the ovector holds the whole match only) and by a pattern with one group
  (\<^verbatim>\<open>(?<n>\d+)\<close>: the whole match and group 1, named \<^verbatim>\<open>n\<close>), keep-zero off.
\<close>

definition demo_match_no_groups :: FilterXReMatchState where
  "demo_match_no_groups = \<lparr> match_data = Some [(3, 6)], lhs_str = ''foo123bar'', flags = {} \<rparr>"

definition demo_match_one_group :: FilterXReMatchState where
  "demo_match_one_group =
     \<lparr> match_data = Some [(3, 6), (3, 6)], lhs_str = ''foo123bar'', flags = {} \<rparr>"

text \<open>A literal expression that yields \<open>obj\<close> and records its number \<open>n\<close>.\<close>

definition literal_expr :: "nat \<Rightarrow> unit FilterXObject \<Rightarrow> (unit, nat list) FilterXExpr" where
  "literal_expr n obj =
     FilterXExpr (\<lambda>c. (Some obj, c\<lparr>user_data := user_data c @ [n]\<rparr>)) False False True None"

text \<open>A literal that leaves the context alone.\<close>

definition quiet_literal :: "unit FilterXObject \<Rightarrow> (unit, nat list) FilterXExpr" where
  "quiet_literal obj = FilterXExpr (\<lambda>c. (Some obj, c)) False False True None"

text \<open>
  \<^verbatim>\<open>startswith("foobar", "foo")\<close> with a literal needle, as \<open>function_affix_new\<close> builds it.
\<close>

definition demo_startswith_literal :: "(unit, nat list) FilterXExprAffix" where
  "demo_startswith_literal =
     \<lparr> ignore_case = False,
       haystack = value_expr 1 (Some (FXString ''foobar'')),
       needle_expr = literal_expr 2 (FXString ''foo''),
       cached_strings =
         [\<lparr>cache_expr = literal_expr 2 (FXString ''foo''), str_value = None, str_len = 0\<rparr>],
       process = function_startswith_process \<rparr>"

text \<open>An affix node whose needle is evaluated at every call.\<close>

definition demo_affix ::
  "bool \<Rightarrow> unit FilterXObject \<Rightarrow> unit FilterXObject
     \<Rightarrow> (string \<Rightarrow> nat \<Rightarrow> string \<Rightarrow> nat \<Rightarrow> bool) \<Rightarrow> (unit, nat list) FilterXExprAffix" where
  "demo_affix ic haystack_obj needle_obj process_func =
     \<lparr> ignore_case = ic,
       haystack = value_expr 1 (Some haystack_obj),
       needle_expr = value_expr 2 (Some needle_obj),
       cached_strings = [],
       process = process_func \<rparr>"

text \<open>
  An expression that is no literal and depends on the context: it yields \<open>a\<close> when
  nothing has been evaluated before it and \<open>b\<close> otherwise, and records its number.
\<close>

definition context_dependent_expr :: "nat \<Rightarrow> string \<Rightarrow> string \<Rightarrow> (unit, nat list) FilterXExpr" where
  "context_dependent_expr n a b =
     FilterXExpr
       (\<lambda>c. (Some (FXString (if user_data c = [] then a else b)),
             c\<lparr>user_data := user_data c @ [n]\<rparr>))
       False False False None"

text \<open>A literal list generator: it evaluates its elements in order into a list.\<close>

fun eval_list_elements ::
  "(unit, nat list) FilterXExpr list \<Rightarrow> (unit, nat list) FilterXEvalContext
     \<Rightarrow> unit FilterXObject list option \<times> (unit, nat list) FilterXEvalContext" where
  "eval_list_elements [] c = (Some [], c)"
| "eval_list_elements (e # es) c =
     (case eval e c of
        (None, c') \<Rightarrow> (None, c')
      | (Some x, c') \<Rightarrow>
          (case eval_list_elements es c' of
             (None, c'') \<Rightarrow> (None, c'')
           | (Some xs, c'') \<Rightarrow> (Some (x # xs), c'')))"

definition literal_list_expr :: "(unit, nat list) FilterXExpr list \<Rightarrow> (unit, nat list) FilterXExpr" where
  "literal_list_expr elems =
     FilterXExpr (\<lambda>c. case eval_list_elements elems c of (r, c') \<Rightarrow> (map_option FXList r, c'))
       False False False (Some elems)"

text \<open>
  \<^verbatim>\<open>endswith(h, [".zip", x, y])\<close> where \<^verbatim>\<open>x\<close> depends on the context and \<^verbatim>\<open>y\<close>
  records itself, as \<open>function_affix_new\<close> builds it: one cache entry for each element.
\<close>

definition demo_needle_list :: "(unit, nat list) FilterXExpr list" where
  "demo_needle_list =
     [quiet_literal (FXString ''.zip''), context_dependent_expr 2 ''.zip'' ''.gz'',
      value_expr 3 (Some (FXString ''.tar''))]"

definition demo_endswith_list :: "string \<Rightarrow> (unit, nat list) FilterXExprAffix" where
  "demo_endswith_list h =
     \<lparr> ignore_case = False,
       haystack = value_expr 1 (Some (FXString h)),
       needle_expr = literal_list_expr demo_needle_list,
       cached_strings =
         map (\<lambda>e. \<lparr>cache_expr = e, str_value = None, str_len = 0\<rparr>) demo_needle_list,
       process = function_endswith_process \<rparr>"

section \<open>Theorems\<close>

subsection \<open>Variables\<close>

text \<open>
  C10.  For every variable \<open>v\<close> and every generation \<open>g\<close>, after
  \<open>filterx_variable_unset_value v g\<close> the variable has no value
  (\<open>filterx_variable_is_set\<close> is false) and its assigned flag is set
  (\<open>filterx_variable_is_assigned\<close> is true): unsetting counts as an assignment.  The
  generation passed in is the one stored, and handle and variable type are untouched.
\<close>

theorem unset_value_counts_as_assignment:
  "\<not> filterx_variable_is_set (filterx_variable_unset_value v g)
   \<and> filterx_variable_is_assigned (filterx_variable_unset_value v g)
   \<and> filterx_variable_is_same_generation (filterx_variable_unset_value v g) g
   \<and> handle (filterx_variable_unset_value v g) = handle v
   \<and> variable_type (filterx_variable_unset_value v g) = variable_type v"
  by (simp add: filterx_variable_unset_value_def filterx_variable_set_value_def
      filterx_variable_is_set_def filterx_variable_is_assigned_def
      filterx_variable_is_same_generation_def)


subsection \<open>Compound expressions\<close>

text \<open>
  The loop over a list of children that is split in two: the second part starts with the
  result and context the first part ended with, unless the first part bailed out.
\<close>

lemma eval_exprs_loop_append:
  "eval_exprs_loop E (pre @ rest) acc ctx =
     (case eval_exprs_loop E pre acc ctx of
        None \<Rightarrow> None
      | Some (ok, res, c1) \<Rightarrow> if ok then eval_exprs_loop E rest res c1 else Some (False, res, c1))"
proof (induction pre arbitrary: acc ctx)
  case Nil
  show ?case by simp
next
  case (Cons e pre)
  show ?case
  proof (cases "eval_control_modifier ctx = FXC_DROP \<or> eval_control_modifier ctx = FXC_DONE")
    case True
    then show ?thesis by (cases rest) auto
  next
    case False
    then show ?thesis using Cons.IH
      by (auto split: option.splits prod.splits)
  qed
qed


lemma child_results_Nil_iff: "child_results cs ctx = [] \<longleftrightarrow> cs = []"
  by (cases cs) (auto split: prod.splits)

lemma eval_exprs_loop_all_truthy:
  "\<not> short_circuits (eval_control_modifier ctx) \<Longrightarrow> all_truthy E cs ctx \<Longrightarrow>
   eval_exprs_loop E cs acc ctx =
     Some (True, if cs = [] then acc else last_result cs ctx, final_context cs ctx)"
proof (induction cs arbitrary: acc ctx)
  case Nil
  show ?case by (simp add: final_context_def)
next
  case (Cons e rest)
  obtain r c' where ev: "filterx_expr_eval e ctx = (r, c')" by (cases "filterx_expr_eval e ctx")
  from Cons.prems(2) ev obtain obj where r: "r = Some obj"
    and tr: "filterx_object_truthy E obj"
    and tc: "trace_flag E \<and> \<not> suppress_from_trace e \<longrightarrow> traceable E obj"
    and ns: "\<not> short_circuits (eval_control_modifier c')"
    and rest: "all_truthy E rest c'"
    by (auto simp: all_truthy_def)
  have step: "eval_expr E e ctx = Some (True, Some obj, c')"
    using ev r tr tc by (auto simp: eval_expr_def traceable_def split: option.splits)
  have "eval_exprs_loop E (e # rest) acc ctx = eval_exprs_loop E rest (Some obj) c'"
    using Cons.prems(1) step by (simp add: short_circuits_def)
  also have "\<dots> = Some (True, if rest = [] then Some obj else last_result rest c', final_context rest c')"
    by (rule Cons.IH [OF ns rest])
  also have "\<dots> = Some (True, last_result (e # rest) ctx, final_context (e # rest) ctx)"
    using ev r by (simp add: last_result_def final_context_def child_results_Nil_iff)
  finally show ?case by simp
qed

text \<open>
  C1.  When every child evaluates to a truthy object and none sets a control modifier,
  the compound returns the result of the last child if \<open>return_value_of_last_expr\<close> is
  set and there is a last result, and boolean true otherwise; with no children it returns
  boolean true.  The context is the one the last child left.
\<close>

theorem compound_all_truthy:
  assumes "\<not> short_circuits (eval_control_modifier ctx)"
    and "all_truthy E (exprs self) ctx"
  shows "eval_compound E self ctx =
           Some (if return_value_of_last_expr self \<and> exprs self \<noteq> []
                 then last_result (exprs self) ctx
                 else Some (filterx_boolean_new True),
                 final_context (exprs self) ctx)"
proof -
  have run: "eval_exprs E self ctx =
      Some (True, if exprs self = [] then None else last_result (exprs self) ctx,
            final_context (exprs self) ctx)"
    unfolding eval_exprs_def by (rule eval_exprs_loop_all_truthy [OF assms])
  have nn: "exprs self \<noteq> [] \<Longrightarrow> last_result (exprs self) ctx \<noteq> None"
  proof -
    assume ne: "exprs self \<noteq> []"
    then have "last (child_results (exprs self) ctx) \<in> set (child_results (exprs self) ctx)"
      by (simp add: child_results_Nil_iff)
    with assms(2) show ?thesis
      by (fastforce simp: all_truthy_def last_result_def)
  qed
  show ?thesis using run nn by (auto simp: eval_compound_def)
qed


text \<open>The definitions unfolded when a compound is run on the concrete environment.\<close>

lemmas demo_simps =
  demo_env_def demo_ctx_def value_expr_def control_expr_def filterx_expr_eval_def
  eval_expr_def eval_exprs_def eval_compound_def filterx_boolean_new_def
  filterx_eval_push_error_def short_circuits_def traceable_def

text \<open>
  Two truthy children in statement-expression mode and in block mode, and the empty block.
\<close>

theorem compound_all_truthy_witness:
  "eval_compound demo_env
     \<lparr> return_value_of_last_expr = True,
       exprs = [value_expr 1 (Some (FXBoolean True)), value_expr 2 (Some (FXString ''x''))] \<rparr>
     demo_ctx
   = Some (Some (FXString ''x''), demo_ctx\<lparr>user_data := [1, 2]\<rparr>)
   \<and> eval_compound demo_env
     \<lparr> return_value_of_last_expr = False,
       exprs = [value_expr 1 (Some (FXBoolean True)), value_expr 2 (Some (FXString ''x''))] \<rparr>
     demo_ctx
   = Some (Some (FXBoolean True), demo_ctx\<lparr>user_data := [1, 2]\<rparr>)
   \<and> eval_compound demo_env \<lparr> return_value_of_last_expr = True, exprs = [] \<rparr> demo_ctx
   = Some (Some (FXBoolean True), demo_ctx)"
  using compound_all_truthy [of demo_ctx demo_env
      "\<lparr> return_value_of_last_expr = True,
         exprs = [value_expr 1 (Some (FXBoolean True)), value_expr 2 (Some (FXString ''x''))] \<rparr>"]
    compound_all_truthy [of demo_ctx demo_env
      "\<lparr> return_value_of_last_expr = False,
         exprs = [value_expr 1 (Some (FXBoolean True)), value_expr 2 (Some (FXString ''x''))] \<rparr>"]
    compound_all_truthy [of demo_ctx demo_env "\<lparr> return_value_of_last_expr = True, exprs = [] \<rparr>"]
  by (simp add: demo_simps all_truthy_def last_result_def final_context_def)

text \<open>
  C2 (amended).  Let the children before \<open>ck\<close> run through and \<open>ck\<close> be reached.  If
  \<open>ck\<close> yields a falsy object while its \<open>ignore_falsy_result\<close> is off, the error
  "bailing out due to a falsy expr" is pushed with that object and the compound returns
  null.  If \<open>ck\<close> yields null, the compound returns null and pushes nothing: the error
  stack is as \<open>ck\<close> left it.  In both cases no child after \<open>ck\<close> is evaluated: result
  and context are those of the compound that ends with \<open>ck\<close>.
\<close>

theorem compound_falsy_bails_out:
  assumes pre: "eval_exprs_loop E pre None ctx = Some (True, res, ctx_pre)"
    and reached: "\<not> short_circuits (eval_control_modifier ctx_pre)"
    and ck: "filterx_expr_eval ck ctx_pre = (r, ctx_ck)"
    and falsy: "case r of
                  None \<Rightarrow> True
                | Some obj \<Rightarrow> \<not> filterx_object_truthy E obj \<and> \<not> ignore_falsy_result ck
                    \<and> ((debug_flag E \<or> trace_flag E) \<and> \<not> suppress_from_trace ck \<longrightarrow> traceable E obj)"
    and children: "exprs self = pre @ ck # post"
  shows "eval_compound E self ctx =
           Some (None,
                 case r of
                   None \<Rightarrow> ctx_ck
                 | Some obj \<Rightarrow>
                     filterx_eval_push_error ''bailing out due to a falsy expr'' (Some obj) ctx_ck)
         \<and> eval_compound E self ctx = eval_compound E (self\<lparr>exprs := pre @ [ck]\<rparr>) ctx"
proof -
  have step: "eval_expr E ck ctx_pre = Some (False, r, ctx_ck)"
    using ck falsy by (auto simp: eval_expr_def traceable_def split: option.splits)
  have run: "eval_exprs_loop E (pre @ ck # rest) None ctx = Some (False, r, ctx_ck)" for rest
    using pre reached step by (simp add: eval_exprs_loop_append short_circuits_def)
  show ?thesis
    using run [of post] run [of "[]"] children
    by (auto simp: eval_compound_def eval_exprs_def split: option.splits)
qed

text \<open>
  A falsy second child and a null second child: the third child is not recorded in
  \<open>user_data\<close>.
\<close>

theorem compound_falsy_bails_out_witness:
  "eval_compound demo_env
     \<lparr> return_value_of_last_expr = False,
       exprs = [value_expr 1 (Some (FXBoolean True)), value_expr 2 (Some (FXBoolean False)),
                value_expr 3 (Some (FXBoolean True))] \<rparr>
     demo_ctx
   = Some (None,
       demo_ctx\<lparr>user_data := [1, 2],
                error_stack := [\<lparr> message = ''bailing out due to a falsy expr'',
                                  object = Some (FXBoolean False) \<rparr>]\<rparr>)
   \<and> eval_compound demo_env
     \<lparr> return_value_of_last_expr = False,
       exprs = [value_expr 1 (Some (FXBoolean True)), value_expr 2 None,
                value_expr 3 (Some (FXBoolean True))] \<rparr>
     demo_ctx
   = Some (None, demo_ctx\<lparr>user_data := [1, 2]\<rparr>)"
  using compound_falsy_bails_out [where E = demo_env and pre = "[value_expr 1 (Some (FXBoolean True))]"
      and ctx = demo_ctx and res = "Some (FXBoolean True)" and ctx_pre = "demo_ctx\<lparr>user_data := [1]\<rparr>"
      and ck = "value_expr 2 (Some (FXBoolean False))" and r = "Some (FXBoolean False)"
      and ctx_ck = "demo_ctx\<lparr>user_data := [1, 2]\<rparr>"
      and post = "[value_expr 3 (Some (FXBoolean True))]"
      and self = "\<lparr> return_value_of_last_expr = False,
         exprs = [value_expr 1 (Some (FXBoolean True)), value_expr 2 (Some (FXBoolean False)),
                  value_expr 3 (Some (FXBoolean True))] \<rparr>"]
    compound_falsy_bails_out [where E = demo_env and pre = "[value_expr 1 (Some (FXBoolean True))]"
      and ctx = demo_ctx and res = "Some (FXBoolean True)" and ctx_pre = "demo_ctx\<lparr>user_data := [1]\<rparr>"
      and ck = "value_expr 2 None" and r = None
      and ctx_ck = "demo_ctx\<lparr>user_data := [1, 2]\<rparr>"
      and post = "[value_expr 3 (Some (FXBoolean True))]"
      and self = "\<lparr> return_value_of_last_expr = False,
         exprs = [value_expr 1 (Some (FXBoolean True)), value_expr 2 None,
                  value_expr 3 (Some (FXBoolean True))] \<rparr>"]
  by (simp add: demo_simps)

text \<open>
  C2 as stated fails for a child that yields null: the compound returns null, and the
  error stack stays empty.
\<close>

theorem compound_null_child_pushes_no_error:
  "eval_compound demo_env
     \<lparr> return_value_of_last_expr = False, exprs = [value_expr 1 None] \<rparr> demo_ctx
   = Some (None, demo_ctx\<lparr>user_data := [1]\<rparr>)
   \<and> error_stack (demo_ctx\<lparr>user_data := [1]\<rparr>) = []"
  by (simp add: demo_simps)

text \<open>
  C3 (amended).  Let the children before \<open>ck\<close> run through, and let \<open>ck\<close> set the
  control modifier to \<^verbatim>\<open>DROP\<close> or \<^verbatim>\<open>DONE\<close> while its own result counts as a success
  (it is truthy, or falsy results are ignored).  Then no child after \<open>ck\<close> is evaluated
  and the list counts as run through; the compound returns boolean true when
  \<open>return_value_of_last_expr\<close> is off, and the result of \<open>ck\<close> when it is on and \<open>ck\<close>
  is the last child.
\<close>

theorem compound_control_modifier:
  assumes pre: "eval_exprs_loop E pre None ctx = Some (True, res, ctx_pre)"
    and reached: "\<not> short_circuits (eval_control_modifier ctx_pre)"
    and ck: "filterx_expr_eval ck ctx_pre = (Some obj, ctx_ck)"
    and modifier: "short_circuits (eval_control_modifier ctx_ck)"
    and success: "ignore_falsy_result ck \<or> filterx_object_truthy E obj"
    and trace: "((\<not> (ignore_falsy_result ck \<or> filterx_object_truthy E obj) \<and> debug_flag E) \<or> trace_flag E)
                  \<and> \<not> suppress_from_trace ck \<longrightarrow> traceable E obj"
    and children: "exprs self = pre @ ck # post"
  shows "eval_exprs E self ctx = Some (True, Some obj, ctx_ck)
         \<and> (\<not> return_value_of_last_expr self \<longrightarrow>
              eval_compound E self ctx = Some (Some (filterx_boolean_new True), ctx_ck))
         \<and> (return_value_of_last_expr self \<and> post = [] \<longrightarrow>
              eval_compound E self ctx = Some (Some obj, ctx_ck))"
proof -
  have step: "eval_expr E ck ctx_pre = Some (True, Some obj, ctx_ck)"
    using ck success trace by (auto simp: eval_expr_def traceable_def split: option.splits)
  have stop: "eval_exprs_loop E post (Some obj) ctx_ck = Some (True, Some obj, ctx_ck)"
    using modifier by (cases post) (auto simp: short_circuits_def)
  have run: "eval_exprs E self ctx = Some (True, Some obj, ctx_ck)"
    using pre reached step stop children
    by (simp add: eval_exprs_def eval_exprs_loop_append short_circuits_def)
  then show ?thesis by (simp add: eval_compound_def)
qed

text \<open>
  A \<^verbatim>\<open>DROP\<close> in the middle of a block (the falsy third child is never run), and a
  \<^verbatim>\<open>DONE\<close> as the last statement of a statement expression.
\<close>

theorem compound_control_modifier_witness:
  "eval_exprs demo_env
     \<lparr> return_value_of_last_expr = False,
       exprs = [value_expr 1 (Some (FXBoolean True)), control_expr 2 FXC_DROP (Some (FXBoolean True)),
                value_expr 3 (Some (FXBoolean False))] \<rparr>
     demo_ctx
   = Some (True, Some (FXBoolean True), demo_ctx\<lparr>eval_control_modifier := FXC_DROP, user_data := [1, 2]\<rparr>)
   \<and> eval_compound demo_env
     \<lparr> return_value_of_last_expr = False,
       exprs = [value_expr 1 (Some (FXBoolean True)), control_expr 2 FXC_DROP (Some (FXBoolean True)),
                value_expr 3 (Some (FXBoolean False))] \<rparr>
     demo_ctx
   = Some (Some (FXBoolean True), demo_ctx\<lparr>eval_control_modifier := FXC_DROP, user_data := [1, 2]\<rparr>)
   \<and> eval_compound demo_env
     \<lparr> return_value_of_last_expr = True,
       exprs = [value_expr 1 (Some (FXBoolean True)), control_expr 2 FXC_DONE (Some (FXString ''x''))] \<rparr>
     demo_ctx
   = Some (Some (FXString ''x''), demo_ctx\<lparr>eval_control_modifier := FXC_DONE, user_data := [1, 2]\<rparr>)"
  using compound_control_modifier [where E = demo_env and pre = "[value_expr 1 (Some (FXBoolean True))]"
      and ctx = demo_ctx and res = "Some (FXBoolean True)" and ctx_pre = "demo_ctx\<lparr>user_data := [1]\<rparr>"
      and ck = "control_expr 2 FXC_DROP (Some (FXBoolean True))" and obj = "FXBoolean True"
      and ctx_ck = "demo_ctx\<lparr>eval_control_modifier := FXC_DROP, user_data := [1, 2]\<rparr>"
      and post = "[value_expr 3 (Some (FXBoolean False))]"
      and self = "\<lparr> return_value_of_last_expr = False,
         exprs = [value_expr 1 (Some (FXBoolean True)), control_expr 2 FXC_DROP (Some (FXBoolean True)),
                  value_expr 3 (Some (FXBoolean False))] \<rparr>"]
    compound_control_modifier [where E = demo_env and pre = "[value_expr 1 (Some (FXBoolean True))]"
      and ctx = demo_ctx and res = "Some (FXBoolean True)" and ctx_pre = "demo_ctx\<lparr>user_data := [1]\<rparr>"
      and ck = "control_expr 2 FXC_DONE (Some (FXString ''x''))" and obj = "FXString ''x''"
      and ctx_ck = "demo_ctx\<lparr>eval_control_modifier := FXC_DONE, user_data := [1, 2]\<rparr>"
      and post = "[]"
      and self = "\<lparr> return_value_of_last_expr = True,
         exprs = [value_expr 1 (Some (FXBoolean True)), control_expr 2 FXC_DONE (Some (FXString ''x''))] \<rparr>"]
  by (simp add: demo_simps)

text \<open>
  C3 as stated fails in statement-expression mode: a child that sets \<^verbatim>\<open>DROP\<close> and yields
  a string makes the compound return that string, not boolean true.
\<close>

theorem compound_drop_returns_last_result:
  "eval_compound demo_env
     \<lparr> return_value_of_last_expr = True, exprs = [control_expr 1 FXC_DROP (Some (FXString ''x''))] \<rparr>
     demo_ctx
   = Some (Some (FXString ''x''), demo_ctx\<lparr>eval_control_modifier := FXC_DROP, user_data := [1]\<rparr>)
   \<and> FXString ''x'' \<noteq> (filterx_boolean_new True :: unit FilterXObject)"
  by (simp add: demo_simps)


subsection \<open>Initialisation\<close>

lemma compound_init_loop_append:
  "compound_init_loop L initialized (pre @ rest) cfg =
     (case compound_init_loop L initialized pre cfg of
        (ok, g) \<Rightarrow> if ok then compound_init_loop L (initialized @ pre) rest g else (False, g))"
  by (induction pre arbitrary: initialized cfg) (auto split: prod.splits)

lemma literal_generator_init_loop_append:
  "literal_generator_init_loop L initialized (pre @ rest) cfg =
     (case literal_generator_init_loop L initialized pre cfg of
        (ok, g) \<Rightarrow>
          if ok then literal_generator_init_loop L (initialized @ pre) rest g else (False, g))"
  by (induction pre arbitrary: initialized cfg) (auto split: prod.splits)

text \<open>
  C8 (amended).  For a compound expression and for a literal generator: if the children
  (elements) before the k-th initialise and the k-th fails, \<^verbatim>\<open>init\<close> of the node fails,
  and exactly the children before the k-th are deinitialised, once each, in declaration
  order, first to last; an element whose value fails after its key was initialised
  deinitialises the key.  For a binary operator: if \<^verbatim>\<open>init\<close> of the left or of the right
  operand fails, \<^verbatim>\<open>init\<close> of the node fails.
\<close>

theorem init_failure_deinits_in_declaration_order:
  "(compound_init_loop L [] pre cfg = (True, cfg_pre)
      \<and> filterx_expr_init L ek cfg_pre = (False, cfg_k)
    \<longrightarrow> compound_init L (pre @ ek # post) cfg
          = (False, foldl (\<lambda>g e. filterx_expr_deinit L e g) cfg_k pre))
   \<and> (literal_generator_init_loop L [] elems_pre cfg = (True, cfg_elems)
      \<and> literal_generator_elem_init L elem_k cfg_elems = (False, cfg_elem_k)
    \<longrightarrow> literal_generator_init L (elems_pre @ elem_k # elems_post) cfg
          = (False, foldl (\<lambda>g e. literal_generator_elem_deinit L e g) cfg_elem_k elems_pre))
   \<and> (filterx_expr_init_opt L (elem_key elem) cfg = (True, cfg_key)
      \<and> filterx_expr_init L (elem_value elem) cfg_key = (False, cfg_value)
    \<longrightarrow> literal_generator_elem_init L elem cfg
          = (False, filterx_expr_deinit_opt L (elem_key elem) cfg_value))
   \<and> (\<not> fst (filterx_expr_init L (lhs bin) cfg)
      \<or> \<not> fst (filterx_expr_init L (rhs bin) (snd (filterx_expr_init L (lhs bin) cfg)))
    \<longrightarrow> \<not> fst (filterx_binary_op_init_method L bin cfg))"
proof (intro conjI impI)
  assume "compound_init_loop L [] pre cfg = (True, cfg_pre)
      \<and> filterx_expr_init L ek cfg_pre = (False, cfg_k)"
  then show "compound_init L (pre @ ek # post) cfg
          = (False, foldl (\<lambda>g e. filterx_expr_deinit L e g) cfg_k pre)"
    by (simp add: compound_init_def compound_init_loop_append)
next
  assume "literal_generator_init_loop L [] elems_pre cfg = (True, cfg_elems)
      \<and> literal_generator_elem_init L elem_k cfg_elems = (False, cfg_elem_k)"
  then show "literal_generator_init L (elems_pre @ elem_k # elems_post) cfg
          = (False, foldl (\<lambda>g e. literal_generator_elem_deinit L e g) cfg_elem_k elems_pre)"
    by (simp add: literal_generator_init_def literal_generator_init_loop_append)
next
  assume "filterx_expr_init_opt L (elem_key elem) cfg = (True, cfg_key)
      \<and> filterx_expr_init L (elem_value elem) cfg_key = (False, cfg_value)"
  then show "literal_generator_elem_init L elem cfg
          = (False, filterx_expr_deinit_opt L (elem_key elem) cfg_value)"
    by (simp add: literal_generator_elem_init_def)
next
  assume "\<not> fst (filterx_expr_init L (lhs bin) cfg)
      \<or> \<not> fst (filterx_expr_init L (rhs bin) (snd (filterx_expr_init L (lhs bin) cfg)))"
  then show "\<not> fst (filterx_binary_op_init_method L bin cfg)"
    by (auto simp: filterx_binary_op_init_method_def split: prod.splits)
qed

lemmas init_demo_simps =
  logging_lifecycle_def compound_init_def literal_generator_init_def
  literal_generator_elem_init_def literal_generator_elem_deinit_def
  filterx_expr_init_opt_def filterx_expr_deinit_opt_def filterx_binary_op_init_method_def

text \<open>
  Three children of which the third fails; three list elements (no keys) of which the third
  fails; a dict element whose value fails; a binary operator whose right operand fails.
\<close>

theorem init_failure_deinits_in_declaration_order_witness:
  "compound_init (logging_lifecycle 3) [1, 2, 3, 4] []
     = (False, [InitCalled 1, InitCalled 2, InitCalled 3, DeinitCalled 1, DeinitCalled 2])
   \<and> literal_generator_init (logging_lifecycle 3)
       [\<lparr>elem_key = None, elem_value = 1, cloneable = False\<rparr>,
        \<lparr>elem_key = None, elem_value = 2, cloneable = False\<rparr>,
        \<lparr>elem_key = None, elem_value = 3, cloneable = False\<rparr>] []
     = (False, [InitCalled 1, InitCalled 2, InitCalled 3, DeinitCalled 1, DeinitCalled 2])
   \<and> literal_generator_elem_init (logging_lifecycle 3)
       \<lparr>elem_key = Some 1, elem_value = 3, cloneable = False\<rparr> []
     = (False, [InitCalled 1, InitCalled 3, DeinitCalled 1])
   \<and> \<not> fst (filterx_binary_op_init_method (logging_lifecycle 3)
              \<lparr>op_name = ''+'', lhs = 1, rhs = 3\<rparr> [])"
  using init_failure_deinits_in_declaration_order
    [where L = "logging_lifecycle 3" and pre = "[1, 2]" and ek = 3 and post = "[4]" and cfg = "[]"
      and cfg_pre = "[InitCalled 1, InitCalled 2]"
      and cfg_k = "[InitCalled 1, InitCalled 2, InitCalled 3]"
      and elems_pre = "[\<lparr>elem_key = None, elem_value = 1, cloneable = False\<rparr>,
                        \<lparr>elem_key = None, elem_value = 2, cloneable = False\<rparr>]"
      and elem_k = "\<lparr>elem_key = None, elem_value = 3, cloneable = False\<rparr>"
      and elems_post = "[]"
      and cfg_elems = "[InitCalled 1, InitCalled 2]"
      and cfg_elem_k = "[InitCalled 1, InitCalled 2, InitCalled 3]"
      and elem = "\<lparr>elem_key = Some 1, elem_value = 3, cloneable = False\<rparr>"
      and cfg_key = "[InitCalled 1]" and cfg_value = "[InitCalled 1, InitCalled 3]"
      and bin = "\<lparr>op_name = ''+'', lhs = 1, rhs = 3\<rparr>"]
  by (simp add: init_demo_simps)

text \<open>
  C8 as stated fails on the order: the compound whose third child fails deinitialises
  child 1 before child 2, not child 2 before child 1.
\<close>

theorem compound_init_deinit_order_is_forward:
  "snd (compound_init (logging_lifecycle 3) [1, 2, 3] [])
     = [InitCalled 1, InitCalled 2, InitCalled 3, DeinitCalled 1, DeinitCalled 2]
   \<and> snd (compound_init (logging_lifecycle 3) [1, 2, 3] [])
     \<noteq> [InitCalled 1, InitCalled 2, InitCalled 3, DeinitCalled 2, DeinitCalled 1]"
  by (simp add: init_demo_simps)

text \<open>
  The binary operator returns as soon as the right operand fails: the left operand, already
  initialised, is not deinitialised.
\<close>

lemma binary_op_init_keeps_lhs_initialized:
  "filterx_binary_op_init_method (logging_lifecycle 2) \<lparr>op_name = ''+'', lhs = 1, rhs = 2\<rparr> []
     = (False, [InitCalled 1, InitCalled 2])"
  by (simp add: init_demo_simps)

subsection \<open>The TLS transport\<close>

lemma send_shutdown_calls_SSL_shutdown:
  "log_transport_tls_send_shutdown self = Some (rc, self')
   \<Longrightarrow> ssl_calls self' = ssl_calls self @ [SSL_shutdown_called]"
  by (auto simp: log_transport_tls_send_shutdown_def handle_shutdown_error_def Let_def
      split: list.splits if_splits SSL_ERROR.splits)

lemma send_shutdown_defined:
  "shutdown_script self \<noteq> [] \<Longrightarrow> \<exists>rc self'. log_transport_tls_send_shutdown self = Some (rc, self')"
  by (cases "shutdown_script self") (simp_all add: log_transport_tls_send_shutdown_def Let_def)

text \<open>
  C9 (amended).  Read: when \<^verbatim>\<open>SSL_read\<close> reports that the peer has shut the stream down
  (\<^verbatim>\<open>SSL_ERROR_ZERO_RETURN\<close>), the transport calls \<^verbatim>\<open>SSL_shutdown\<close> in reply, and the
  read returns 0 if the shutdown was sent and -1 if not (retrying the read when that
  failure is an interrupted system call).  Read: when \<^verbatim>\<open>SSL_read\<close> reports a syscall
  error and \<^verbatim>\<open>errno\<close> is 0, the read returns 0 (end of stream) and \<^verbatim>\<open>errno\<close> stays 0.
  Write: when \<^verbatim>\<open>SSL_write\<close> returns a negative value, reports a syscall error and
  \<^verbatim>\<open>errno\<close> is 0, the write returns -1 with \<^verbatim>\<open>errno\<close> set to \<^verbatim>\<open>ECONNRESET\<close>.
\<close>

theorem tls_peer_shutdown_and_unresolved_syscall_errors:
  "(\<not> sending_shutdown self \<and> ssl_rc c \<le> 0 \<and> ssl_error c = SSL_ERROR_ZERO_RETURN
      \<and> shutdown_script self \<noteq> []
    \<longrightarrow> (\<exists>shutdown_rc self'.
           log_transport_tls_send_shutdown
             (self\<lparr>cond := G_IO_IN, errno := ssl_errno c,
                    ssl_calls := ssl_calls self @ [SSL_read_called]\<rparr>)
             = Some (shutdown_rc, self')
           \<and> ssl_calls self' = ssl_calls self @ [SSL_read_called, SSL_shutdown_called]
           \<and> log_transport_tls_read_method (c # rest) self
               = (if shutdown_rc < 0 \<and> errno self' = EINTR then tls_read_loop rest self'
                  else Some (if shutdown_rc \<ge> 0 then 0 else - 1, self'))))
   \<and> (\<not> sending_shutdown self \<and> ssl_rc c \<le> 0 \<and> ssl_error c = SSL_ERROR_SYSCALL
      \<and> ssl_errno c = 0
    \<longrightarrow> log_transport_tls_read_method (c # rest) self
          = Some (0, self\<lparr>cond := G_IO_IN, errno := 0,
                         ssl_calls := ssl_calls self @ [SSL_read_called]\<rparr>))
   \<and> (ssl_rc c < 0 \<and> ssl_error c = SSL_ERROR_SYSCALL \<and> ssl_errno c = 0
    \<longrightarrow> log_transport_tls_write_method c self
          = (- 1, self\<lparr>cond := G_IO_OUT, errno := ECONNRESET,
                       ssl_calls := ssl_calls self @ [SSL_write_called]\<rparr>))"
proof (intro conjI impI)
  assume h: "\<not> sending_shutdown self \<and> ssl_rc c \<le> 0 \<and> ssl_error c = SSL_ERROR_ZERO_RETURN
      \<and> shutdown_script self \<noteq> []"
  define self1 where "self1 = self\<lparr>cond := G_IO_IN, errno := ssl_errno c,
                    ssl_calls := ssl_calls self @ [SSL_read_called]\<rparr>"
  have "shutdown_script self1 \<noteq> []" using h by (simp add: self1_def)
  then obtain shutdown_rc self' where
    sd: "log_transport_tls_send_shutdown self1 = Some (shutdown_rc, self')"
    using send_shutdown_defined by blast
  have calls: "ssl_calls self' = ssl_calls self @ [SSL_read_called, SSL_shutdown_called]"
    using send_shutdown_calls_SSL_shutdown [OF sd] by (simp add: self1_def)
  have once: "tls_read_once c (self\<lparr>cond := G_IO_IN\<rparr>)
      = Some (Loop_condition (if shutdown_rc \<ge> 0 then 0 else - 1) self')"
    using h sd by (simp add: tls_read_once_def self1_def Let_def)
  have "log_transport_tls_read_method (c # rest) self
      = (if shutdown_rc < 0 \<and> errno self' = EINTR then tls_read_loop rest self'
         else Some (if shutdown_rc \<ge> 0 then 0 else - 1, self'))"
    using h once by (auto simp: log_transport_tls_read_method_def)
  with sd calls show "\<exists>shutdown_rc self'.
           log_transport_tls_send_shutdown
             (self\<lparr>cond := G_IO_IN, errno := ssl_errno c,
                    ssl_calls := ssl_calls self @ [SSL_read_called]\<rparr>)
             = Some (shutdown_rc, self')
           \<and> ssl_calls self' = ssl_calls self @ [SSL_read_called, SSL_shutdown_called]
           \<and> log_transport_tls_read_method (c # rest) self
               = (if shutdown_rc < 0 \<and> errno self' = EINTR then tls_read_loop rest self'
                  else Some (if shutdown_rc \<ge> 0 then 0 else - 1, self'))"
    unfolding self1_def by blast
next
  assume "\<not> sending_shutdown self \<and> ssl_rc c \<le> 0 \<and> ssl_error c = SSL_ERROR_SYSCALL
      \<and> ssl_errno c = 0"
  then show "log_transport_tls_read_method (c # rest) self
          = Some (0, self\<lparr>cond := G_IO_IN, errno := 0,
                         ssl_calls := ssl_calls self @ [SSL_read_called]\<rparr>)"
    by (simp add: log_transport_tls_read_method_def tls_read_once_def Let_def EINTR_def)
next
  assume "ssl_rc c < 0 \<and> ssl_error c = SSL_ERROR_SYSCALL \<and> ssl_errno c = 0"
  then show "log_transport_tls_write_method c self
          = (- 1, self\<lparr>cond := G_IO_OUT, errno := ECONNRESET,
                       ssl_calls := ssl_calls self @ [SSL_write_called]\<rparr>)"
    by (simp add: log_transport_tls_write_method_def Let_def)
qed

lemmas tls_demo_simps =
  demo_tls_def log_transport_tls_read_method_def log_transport_tls_write_method_def
  tls_read_once_def log_transport_tls_send_shutdown_def handle_shutdown_error_def
  is_shutdown_sent_def Let_def EINTR_def EAGAIN_def EPIPE_def ECONNRESET_def
  G_IO_IN_def G_IO_OUT_def

text \<open>
  The peer's shutdown answered by a shutdown that is sent at once; a syscall error with
  \<^verbatim>\<open>errno\<close> 0 on read and on write.
\<close>

theorem tls_peer_shutdown_and_unresolved_syscall_errors_witness:
  "log_transport_tls_read_method
     [\<lparr>ssl_rc = 0, ssl_error = SSL_ERROR_ZERO_RETURN, ssl_errno = 0\<rparr>] demo_tls
     = Some (0, demo_tls\<lparr>cond := G_IO_IN, shutdown_script := [],
                         ssl_calls := [SSL_read_called, SSL_shutdown_called]\<rparr>)
   \<and> log_transport_tls_read_method
     [\<lparr>ssl_rc = - 1, ssl_error = SSL_ERROR_SYSCALL, ssl_errno = 0\<rparr>] demo_tls
     = Some (0, demo_tls\<lparr>cond := G_IO_IN, ssl_calls := [SSL_read_called]\<rparr>)
   \<and> log_transport_tls_write_method
     \<lparr>ssl_rc = - 1, ssl_error = SSL_ERROR_SYSCALL, ssl_errno = 0\<rparr> demo_tls
     = (- 1, demo_tls\<lparr>cond := G_IO_OUT, errno := ECONNRESET, ssl_calls := [SSL_write_called]\<rparr>)"
  using tls_peer_shutdown_and_unresolved_syscall_errors
      [of demo_tls "\<lparr>ssl_rc = 0, ssl_error = SSL_ERROR_ZERO_RETURN, ssl_errno = 0\<rparr>" "[]"]
    tls_peer_shutdown_and_unresolved_syscall_errors
      [of demo_tls "\<lparr>ssl_rc = - 1, ssl_error = SSL_ERROR_SYSCALL, ssl_errno = 0\<rparr>" "[]"]
  by (simp add: tls_demo_simps)

text \<open>
  C9 as stated fails on read: a syscall error with \<^verbatim>\<open>errno\<close> 0 makes the read return 0
  with \<^verbatim>\<open>errno\<close> still 0, not -1 with \<^verbatim>\<open>ECONNRESET\<close>.
\<close>

theorem tls_read_syscall_error_is_end_of_stream:
  "map_option (\<lambda>(rc, self'). (rc, errno self'))
     (log_transport_tls_read_method
        [\<lparr>ssl_rc = - 1, ssl_error = SSL_ERROR_SYSCALL, ssl_errno = 0\<rparr>] demo_tls)
     = Some (0, 0)
   \<and> (0, 0) \<noteq> (- 1 :: int, ECONNRESET)"
  by (simp add: tls_demo_simps)

subsection \<open>regexp_search\<close>

lemma decimal_not_Nil: "decimal n \<noteq> []"
  by (subst decimal.simps) simp

lemma digit_char_zero_iff: "d < 10 \<Longrightarrow> digit_char d = CHR ''0'' \<longleftrightarrow> d = 0"
proof -
  assume "d < 10"
  then have "d \<in> {0, 1, 2, 3, 4, 5, 6, 7, 8, 9}" by auto
  then show ?thesis by (auto simp: digit_char_def)
qed

lemma decimal_zero_iff: "decimal n = ''0'' \<longleftrightarrow> n = 0"
proof (cases "n < 10")
  case True
  then show ?thesis by (subst decimal.simps) (simp add: digit_char_zero_iff)
next
  case False
  then have "decimal n = decimal (n div 10) @ [digit_char (n mod 10)]"
    by (subst decimal.simps) simp
  then have "length (decimal n) \<ge> 2"
    using decimal_not_Nil [of "n div 10"] by (cases "decimal (n div 10)") auto
  with False show ?thesis by auto
qed

lemma list_loop_plain:
  "\<not> (num_matches > 1 \<and> i = 0 \<and> \<not> check_flag (flags state) FILTERX_REGEXP_SEARCH_KEEP_GRP_ZERO)
   \<Longrightarrow> store_matches_to_list_loop plain_store_ops state num_matches i ms fillable
       = (True, fillable @ list_values plain_store_ops state ms)"
proof (induction ms arbitrary: i fillable)
  case Nil
  show ?case by (simp add: list_values_def)
next
  case (Cons m ms)
  have next_ok: "\<not> (num_matches > 1 \<and> Suc i = 0
      \<and> \<not> check_flag (flags state) FILTERX_REGEXP_SEARCH_KEEP_GRP_ZERO)" by simp
  show ?case
    using Cons.prems Cons.IH [OF next_ok]
    by (auto simp: list_values_def Let_def plain_store_ops_def)
qed

lemma dict_loop_plain_zero:
  "i > 0 \<Longrightarrow>
   \<exists>d. store_matches_to_dict_loop plain_store_ops state num_matches i ms fillable = (True, d)
        \<and> d ''0'' = fillable ''0''"
proof (induction ms arbitrary: i fillable)
  case Nil
  show ?case by simp
next
  case (Cons m ms)
  let ?f = "fillable(decimal i \<mapsto>
      take (nat (gssize_of_size (snd m - fst m))) (drop (unat (fst m)) (lhs_str state)))"
  from Cons.IH [OF zero_less_Suc, of i ?f] obtain d where
    d: "store_matches_to_dict_loop plain_store_ops state num_matches (Suc i) ms ?f = (True, d)"
    and z: "d ''0'' = ?f ''0''" by blast
  have "decimal i \<noteq> ''0''" using Cons.prems by (simp add: decimal_zero_iff)
  with d z Cons.prems show ?case by (simp add: plain_store_ops_def Let_def)
qed

lemma rename_plain_zero:
  "\<forall>(msb, lsb, name) \<in> set name_table. named_group_number msb lsb \<noteq> 0 \<and> name \<noteq> ''0'' \<Longrightarrow>
   \<exists>ok d. rename_named_matches plain_store_ops matches name_table fillable = Some (ok, d)
        \<and> d ''0'' = fillable ''0''"
proof (induction name_table arbitrary: fillable)
  case Nil
  show ?case by auto
next
  case (Cons e rest)
  obtain msb lsb name where e: "e = (msb, lsb, name)" by (cases e)
  let ?key = "decimal (unat (named_group_number msb lsb))"
  from Cons.prems e have n: "?key \<noteq> ''0''" and nm: "name \<noteq> ''0''"
    and rest: "\<forall>(msb, lsb, name) \<in> set rest. named_group_number msb lsb \<noteq> 0 \<and> name \<noteq> ''0''"
    by (auto simp: decimal_zero_iff unat_eq_0)
  show ?case
  proof (cases "fillable ?key")
    case None
    then show ?thesis using e n by (auto simp: plain_store_ops_def Let_def)
  next
    case (Some v)
    let ?f = "(fillable(name \<mapsto> v))(?key := None)"
    from Cons.IH [OF rest, of ?f] obtain ok d where
      "rename_named_matches plain_store_ops matches rest ?f = Some (ok, d)" and "d ''0'' = ?f ''0''"
      by blast
    then show ?thesis using e n nm Some by (auto simp: plain_store_ops_def Let_def)
  qed
qed

text \<open>
  The group number of an entry whose second byte is 128 is negative: the bytes are signed.
\<close>

lemma named_group_number_is_sign_extended:
  "named_group_number 0 1 = 1 \<and> sint (named_group_number 0 128) = - 128"
  by (simp add: named_group_number_def)

text \<open>
  What lies outside the ovector does not matter: the indices read there only feed a test
  for negative values, and they are unsigned.
\<close>

lemma rename_ignores_memory_outside_ovector:
  "rename_named_matches (ops\<lparr>ovector_out_of_bounds := g\<rparr>) matches name_table fillable
     = rename_named_matches ops matches name_table fillable"
  by (induction name_table arbitrary: fillable) (auto simp: Let_def split: option.splits)

text \<open>
  C7 (amended).  Group 0, the whole match, is left out of the container exactly when there
  is more than one group and keep-zero is not set.  In list mode the list gains the values
  of all groups with non-negative indices, without group 0 in that case and with it
  otherwise; in dict mode, with a name table that names neither group 0 nor any group "0",
  the key "0" is in the container exactly when group 0 is not left out.  In particular a
  pattern without capture groups stores its whole match whether keep-zero is set or not.
\<close>

theorem group_zero_elided_iff_more_groups_and_not_keep_zero:
  "(match_data state = Some matches
    \<longrightarrow> store_matches_to_list plain_store_ops state l
          = Some (True, l @ list_values plain_store_ops state
                             (if group_zero_elided state matches then tl matches else matches)))
   \<and> (match_data state = Some matches \<and> matches \<noteq> [] \<and> d ''0'' = None
      \<and> (\<forall>(msb, lsb, name) \<in> set name_table.
            named_group_number msb lsb \<noteq> 0 \<and> name \<noteq> ''0'')
    \<longrightarrow> (\<exists>ok d'. store_matches_to_dict plain_store_ops name_table state d = Some (ok, d')
           \<and> (d' ''0'' \<noteq> None \<longleftrightarrow> \<not> group_zero_elided state matches)))"
proof (intro conjI impI)
  assume md: "match_data state = Some matches"
  show "store_matches_to_list plain_store_ops state l
          = Some (True, l @ list_values plain_store_ops state
                             (if group_zero_elided state matches then tl matches else matches))"
  proof (cases matches)
    case Nil
    then show ?thesis using md by (simp add: store_matches_to_list_def list_values_def)
  next
    case (Cons m ms)
    show ?thesis
    proof (cases "group_zero_elided state matches")
      case True
      then have "store_matches_to_list_loop plain_store_ops state (length matches) 0 matches l
          = store_matches_to_list_loop plain_store_ops state (length matches) (Suc 0) ms l"
        using Cons by (simp add: group_zero_elided_def)
      also have "\<dots> = (True, l @ list_values plain_store_ops state ms)"
        by (rule list_loop_plain) simp
      finally show ?thesis using md True Cons by (simp add: store_matches_to_list_def)
    next
      case False
      then have "store_matches_to_list_loop plain_store_ops state (length matches) 0 matches l
          = (True, l @ list_values plain_store_ops state matches)"
        by (intro list_loop_plain) (auto simp: group_zero_elided_def)
      then show ?thesis using md False by (simp add: store_matches_to_list_def)
    qed
  qed
next
  assume h: "match_data state = Some matches \<and> matches \<noteq> [] \<and> d ''0'' = None
      \<and> (\<forall>(msb, lsb, name) \<in> set name_table.
            named_group_number msb lsb \<noteq> 0 \<and> name \<noteq> ''0'')"
  then obtain m ms where ms: "matches = m # ms" by (cases matches) auto
  let ?v = "take (nat (gssize_of_size (snd m - fst m))) (drop (unat (fst m)) (lhs_str state))"
  let ?d0 = "if group_zero_elided state matches then d else d(''0'' \<mapsto> ?v)"
  have dec0: "decimal 0 = ''0''" by (simp add: decimal_zero_iff)
  have first: "store_matches_to_dict_loop plain_store_ops state (length matches) 0 matches d
      = store_matches_to_dict_loop plain_store_ops state (length matches) (Suc 0) ms ?d0"
    using ms dec0 by (auto simp: group_zero_elided_def plain_store_ops_def Let_def)
  from dict_loop_plain_zero [OF zero_less_Suc, of state "length matches" 0 ms ?d0] obtain d1 where
    d1: "store_matches_to_dict_loop plain_store_ops state (length matches) (Suc 0) ms ?d0 = (True, d1)"
    and z1: "d1 ''0'' = ?d0 ''0''" by blast
  from h have names: "\<forall>(msb, lsb, name) \<in> set name_table.
      named_group_number msb lsb \<noteq> 0 \<and> name \<noteq> ''0''" by blast
  from rename_plain_zero [OF names, of matches d1] obtain ok d2 where
    d2: "rename_named_matches plain_store_ops matches name_table d1 = Some (ok, d2)"
    and z2: "d2 ''0'' = d1 ''0''" by blast
  have "store_matches_to_dict plain_store_ops name_table state d = Some (ok, d2)"
    using h first d1 d2 by (simp add: store_matches_to_dict_def)
  moreover have "d2 ''0'' \<noteq> None \<longleftrightarrow> \<not> group_zero_elided state matches"
    using z1 z2 h by simp
  ultimately show "\<exists>ok d'. store_matches_to_dict plain_store_ops name_table state d = Some (ok, d')
           \<and> (d' ''0'' \<noteq> None \<longleftrightarrow> \<not> group_zero_elided state matches)"
    by blast
qed

lemmas regexp_demo_simps =
  demo_match_no_groups_def demo_match_one_group_def plain_store_ops_def
  store_matches_to_list_def store_matches_to_dict_def list_values_def group_zero_elided_def
  check_flag_def gint_of_size_def gssize_of_size_def Let_def decimal.simps digit_char_def

text \<open>
  One capture group, keep-zero off: the list holds group 1 only and the dict has no key
  "0".  No capture group: the whole match is stored.
\<close>

theorem group_zero_elided_iff_more_groups_and_not_keep_zero_witness:
  "store_matches_to_list plain_store_ops demo_match_one_group [] = Some (True, [''123''])
   \<and> (\<exists>ok d'. store_matches_to_dict plain_store_ops [(0, 1, ''n'')] demo_match_one_group Map.empty
                  = Some (ok, d')
        \<and> d' ''0'' = None)
   \<and> store_matches_to_list plain_store_ops demo_match_no_groups [] = Some (True, [''123''])
   \<and> (\<exists>ok d'. store_matches_to_dict plain_store_ops [] demo_match_no_groups Map.empty
                  = Some (ok, d')
        \<and> d' ''0'' \<noteq> None)"
  using group_zero_elided_iff_more_groups_and_not_keep_zero
      [of demo_match_one_group "[(3, 6), (3, 6)]" "[]" Map.empty "[(0, 1, ''n'')]"]
    group_zero_elided_iff_more_groups_and_not_keep_zero
      [of demo_match_no_groups "[(3, 6)]" "[]" Map.empty "[]"]
  by (simp add: demo_match_no_groups_def demo_match_one_group_def list_values_def
      group_zero_elided_def check_flag_def gint_of_size_def plain_store_ops_def
      named_group_number_def)

text \<open>
  C7 as stated fails for a pattern without capture groups and keep-zero off: group 0 is
  the one element of the list, and the value under the key "0" of the dict.
\<close>

theorem whole_match_is_stored_without_capture_groups:
  "store_matches_to_list plain_store_ops demo_match_no_groups [] = Some (True, [''123''])
   \<and> map_option (\<lambda>(ok, d). (ok, d ''0''))
        (store_matches_to_dict plain_store_ops [] demo_match_no_groups Map.empty)
       = Some (True, Some ''123'')"
  by (simp add: regexp_demo_simps)

subsection \<open>The three predicates of func-str.c\<close>







lemma strstr_found_empty_needle: "strstr_found hs []"
  by (cases hs) simp_all

subsection \<open>Evaluation of the affix functions\<close>











lemmas affix_demo_simps =
  demo_env_def demo_ctx_def value_expr_def literal_expr_def quiet_literal_def demo_affix_def
  demo_startswith_literal_def ascii_casefold_def context_dependent_expr_def
  literal_list_expr_def demo_needle_list_def demo_endswith_list_def context_after_def
  filterx_expr_eval_def filterx_expr_eval_typed_def filterx_boolean_new_def
  filterx_eval_push_error_def format_str_obj_def format_and_fold_def do_casefold_def
  expr_format_def obj_format_def G_MAXSSIZE_def
  string_with_cache_fill_cache_def string_with_cache_new_def
  string_with_cache_get_string_value_def cache_needle_def
  filterx_expr_is_literal_list_generator_def expr_affix_init_needle_def function_affix_new_def
  expr_affix_eval_needle_def expr_affix_eval_def
  function_startswith_process_def function_endswith_process_def function_includes_process_def
  memcmp_equal_def g_strstr_len_def gssize_of_gsize_def c_string_def NUL_def
  rendered_def needle_objects_def Let_def



text \<open>
  \<^verbatim>\<open>includes\<close> searches with \<^verbatim>\<open>g_strstr_len\<close>, which stops at a NUL byte of the haystack
  and reads the needle up to its first NUL byte: \<^verbatim>\<open>b\<close> is not found behind a NUL byte.
\<close>

lemma includes_stops_at_NUL:
  "\<not> function_includes_process [CHR ''a'', CHR 0x00, CHR ''b''] 3 ''b'' 1
   \<and> sublist ''b'' [CHR ''a'', CHR 0x00, CHR ''b'']"
proof -
  have "sublist ''b'' ([CHR ''a'', CHR 0x00] @ ''b'' @ [])" by (rule sublist_appendI)
  then show ?thesis
    by (simp add: function_includes_process_def g_strstr_len_def gssize_of_gsize_def
        c_string_def NUL_def)
qed

text \<open>
  C5 (amended).  For all three predicates a needle longer than the haystack gives false
  and the empty needle gives true.  Case folding fails exactly for a string longer than
  \<^verbatim>\<open>G_MAXSSIZE\<close>: under \<^verbatim>\<open>ignorecase\<close> a haystack that renders to a string within that
  length is folded and used, whatever its bytes are.
\<close>

theorem affix_edge_cases:
  "(needle_len > haystack_len
    \<longrightarrow> \<not> function_startswith_process hs haystack_len needle needle_len
        \<and> \<not> function_endswith_process hs haystack_len needle needle_len
        \<and> \<not> function_includes_process hs haystack_len needle needle_len)
   \<and> function_startswith_process hs (length hs) [] 0
   \<and> function_endswith_process hs (length hs) [] 0
   \<and> function_includes_process hs (length hs) [] 0
   \<and> (do_casefold E str = None \<longleftrightarrow> int (length str) > G_MAXSSIZE)
   \<and> (filterx_expr_eval_typed E expr ctx = (Some obj, ctx')
      \<and> filterx_object_repr E obj = Some str \<and> int (length str) \<le> G_MAXSSIZE
    \<longrightarrow> expr_format E expr True ctx = Some (Some (g_utf8_casefold E str), ctx'))"
proof (intro conjI impI)
  show "function_includes_process hs (length hs) [] 0"
    by (simp add: function_includes_process_def g_strstr_len_def c_string_def
        strstr_found_empty_needle)
next
  assume "filterx_expr_eval_typed E expr ctx = (Some obj, ctx')
      \<and> filterx_object_repr E obj = Some str \<and> int (length str) \<le> G_MAXSSIZE"
  then show "expr_format E expr True ctx = Some (Some (g_utf8_casefold E str), ctx')"
    by (simp add: expr_format_def format_and_fold_def format_str_obj_def do_casefold_def)
qed (simp_all add: function_startswith_process_def function_endswith_process_def
    function_includes_process_def memcmp_equal_def do_casefold_def)

text \<open>
  \<^verbatim>\<open>includes("abc", "abcd")\<close> is false; the empty needle; two bytes that are not UTF-8,
  folded under \<^verbatim>\<open>ignorecase\<close>.
\<close>

theorem affix_edge_cases_witness:
  "\<not> function_startswith_process ''abc'' 3 ''abcd'' 4
   \<and> \<not> function_endswith_process ''abc'' 3 ''abcd'' 4
   \<and> \<not> function_includes_process ''abc'' 3 ''abcd'' 4
   \<and> function_startswith_process ''abc'' 3 [] 0
   \<and> function_endswith_process ''abc'' 3 [] 0
   \<and> function_includes_process ''abc'' 3 [] 0
   \<and> do_casefold demo_env [CHR 0xFF, CHR 0xFE] \<noteq> None
   \<and> expr_format demo_env (value_expr 1 (Some (FXString [CHR 0xFF, CHR 0xFE]))) True demo_ctx
       = Some (Some [CHR 0xFF, CHR 0xFE], demo_ctx\<lparr>user_data := [1]\<rparr>)"
  using affix_edge_cases
      [where needle_len = 4 and haystack_len = 3 and hs = "''abc''" and needle = "''abcd''"
        and E = demo_env and str = "[CHR 0xFF, CHR 0xFE]"
        and expr = "value_expr 1 (Some (FXString [CHR 0xFF, CHR 0xFE]))" and ctx = demo_ctx
        and obj = "FXString [CHR 0xFF, CHR 0xFE]" and ctx' = "demo_ctx\<lparr>user_data := [1]\<rparr>"]
  by (simp add: affix_demo_simps)

text \<open>
  C5 as stated fails on its last part: with \<^verbatim>\<open>ignorecase\<close> on and a haystack of two bytes
  that are not UTF-8, \<^verbatim>\<open>startswith\<close> returns false; the call does not fail.
\<close>

theorem affix_non_utf8_haystack_does_not_fail:
  "expr_affix_eval demo_env
     (demo_affix True (FXString [CHR 0xFF, CHR 0xFE]) (FXString ''a'')
        function_startswith_process) demo_ctx
     = Some (Some (FXBoolean False), demo_ctx\<lparr>user_data := [1, 2]\<rparr>)"
  by (simp add: affix_demo_simps)

text \<open>
  C6.  The node built for \<^verbatim>\<open>startswith("foobar", "foo")\<close>: the literal needle is evaluated
  and formatted when the node is built (it is recorded in \<open>user_data\<close>), but the string is
  not kept: \<open>str_value\<close> of the cache entry is still \<^verbatim>\<open>NULL\<close>.  At the call the haystack
  (1) and then the literal needle (2) are evaluated: the needle is not taken from a
  cache.
\<close>

theorem literal_needle_is_evaluated_at_every_call:
  "function_affix_new demo_env False (value_expr 1 (Some (FXString ''foobar'')))
     (literal_expr 2 (FXString ''foo'')) function_startswith_process demo_ctx
     = Some (Some demo_startswith_literal, demo_ctx\<lparr>user_data := [2]\<rparr>)
   \<and> map str_value (cached_strings demo_startswith_literal) = [None]
   \<and> expr_affix_eval demo_env demo_startswith_literal demo_ctx
     = Some (Some (FXBoolean True), demo_ctx\<lparr>user_data := [1, 2]\<rparr>)"
  by (simp add: affix_demo_simps)

end
